theory Spec2Isabelle
  imports Complex_Main "HOL-Library.Word"
begin

section \<open>The escrow vault contract (cairo/src/escrow\_vault.cairo)\<close>

subsection \<open>Data model\<close>

type_synonym u8 = "8 word"
type_synonym u32 = "32 word"
type_synonym u64 = "64 word"
type_synonym u128 = "128 word"

text \<open>A contract address is a field element; only equality and the zero test are used.\<close>
type_synonym ContractAddress = nat

text \<open>A byte array is the list of its bytes.\<close>
type_synonym ByteArray = "u8 list"

record u256 =
  low :: u128
  high :: u128

text \<open>The mathematical value of a 256-bit integer held as two 128-bit limbs.\<close>
definition u256_val :: "u256 \<Rightarrow> nat" where
  "u256_val x = unat (high x) * 2 ^ 128 + unat (low x)"

definition MAX_EXPIRY_WINDOW :: u64 where
  "MAX_EXPIRY_WINDOW = 604800"

datatype EscrowPhase = NonePhase | Locked | Claimed | Refunded

record EscrowPosition =
  phase :: EscrowPhase
  user :: ContractAddress
  amount :: u256
  expires_at :: u64
  locked_at :: u64

text \<open>What a read of the storage map returns for a hash that was never written.\<close>
definition EscrowPosition_default :: EscrowPosition where
  "EscrowPosition_default =
     \<lparr>phase = NonePhase, user = 0, amount = \<lparr>low = 0, high = 0\<rparr>, expires_at = 0, locked_at = 0\<rparr>"

record Storage =
  owner :: ContractAddress
  protocol_operator :: ContractAddress
  protocol_treasury :: ContractAddress
  asset :: ContractAddress
  expiry_window :: u64
  payment_limit :: u256
  hashlocks :: "u256 \<Rightarrow> EscrowPosition"

datatype vault_error =
    OWNER_ZERO | OPERATOR_ZERO | TREASURY_ZERO | ASSET_ZERO | EXPIRY_GT_WEEK
  | LIMIT_ZERO | LIMIT_EXCEEDED | AMOUNT_ZERO | USER_ZERO | NOT_USER | NOT_OPERATOR
  | NOT_OWNER | HASH_REUSED | NOT_LOCKED | HASH_MISMATCH | ESCROW_ACTIVE
  | TRANSFER_FROM_FAIL | TRANSFER_FAIL | LIMB_OVERFLOW | U64_ADD_OVERFLOW | CALLEE_PANIC

text \<open>
  The token is an external contract reached through the ERC-20 dispatcher. A call
  either returns a boolean or panics, which reverts the whole transaction. The calls a
  successful entrypoint has made are returned next to the new storage.
\<close>

datatype token_call =
    TransferFrom ContractAddress ContractAddress ContractAddress u256
  | Transfer ContractAddress ContractAddress u256

datatype call_result = Returns bool | Panics

type_synonym sha_words = "u32 \<times> u32 \<times> u32 \<times> u32 \<times> u32 \<times> u32 \<times> u32 \<times> u32"

text \<open>
  The execution context of one transaction: the caller, the block timestamp, the
  contract's own address, the behaviour of the token contracts and the library's
  SHA-256 (\<open>core::sha256::compute_sha256_byte_array\<close>).
\<close>

record call_env =
  caller_address :: ContractAddress
  block_timestamp :: u64
  contract_address :: ContractAddress
  token :: "token_call \<Rightarrow> call_result"
  compute_sha256_byte_array :: "ByteArray \<Rightarrow> sha_words"

type_synonym 'a vault_result = "vault_error + 'a"

subsection \<open>Sequencing of checks\<close>

definition cairo_assert :: "bool \<Rightarrow> vault_error \<Rightarrow> unit vault_result" where
  "cairo_assert c e = (if c then Inr () else Inl e)"

definition and_then :: "'a vault_result \<Rightarrow> ('a \<Rightarrow> 'b vault_result) \<Rightarrow> 'b vault_result" where
  "and_then r k = (case r of Inl e \<Rightarrow> Inl e | Inr v \<Rightarrow> k v)"

text \<open>\<open>assert(token.call(...), error)\<close>: a panic of the callee reverts, a false answer fails
  with the given error.\<close>
definition assert_token :: "call_env \<Rightarrow> token_call \<Rightarrow> vault_error \<Rightarrow> unit vault_result" where
  "assert_token env c e =
     (case token env c of Panics \<Rightarrow> Inl CALLEE_PANIC | Returns b \<Rightarrow> cairo_assert b e)"

subsection \<open>Helper functions of the contract\<close>

definition require_caller :: "call_env \<Rightarrow> ContractAddress \<Rightarrow> vault_error \<Rightarrow> unit vault_result" where
  "require_caller env expected error = cairo_assert (caller_address env = expected) error"

definition validate_expiry_window :: "u64 \<Rightarrow> unit vault_result" where
  "validate_expiry_window window = cairo_assert (window < MAX_EXPIRY_WINDOW) EXPIRY_GT_WEEK"

definition ensure_non_zero :: "ContractAddress \<Rightarrow> vault_error \<Rightarrow> unit vault_result" where
  "ensure_non_zero address error = cairo_assert (address \<noteq> 0) error"

definition ensure_non_zero_limit :: "u256 \<Rightarrow> unit vault_result" where
  "ensure_non_zero_limit limit =
     (if low limit = 0 \<and> high limit = 0 then Inl LIMIT_ZERO else Inr ())"

definition ensure_amount_within_limit :: "u256 \<Rightarrow> u256 \<Rightarrow> unit vault_result" where
  "ensure_amount_within_limit amt limit =
     (if high amt > high limit then Inl LIMIT_EXCEEDED
      else if high amt = high limit \<and> low amt > low limit then Inl LIMIT_EXCEEDED
      else Inr ())"

definition assert_non_zero_amount :: "u256 \<Rightarrow> unit vault_result" where
  "assert_non_zero_amount amt =
     (if low amt = 0 \<and> high amt = 0 then Inl AMOUNT_ZERO else Inr ())"

text \<open>Addition on \<open>u64\<close> panics on overflow.\<close>
definition u64_add :: "u64 \<Rightarrow> u64 \<Rightarrow> u64 vault_result" where
  "u64_add a b = (if unat a + unat b < 2 ^ 64 then Inr (a + b) else Inl U64_ADD_OVERFLOW)"

text \<open>Arithmetic of \<open>felt252\<close> is arithmetic modulo the field prime.\<close>
definition felt_prime :: nat where
  "felt_prime = 2 ^ 251 + 17 * 2 ^ 192 + 1"

definition WORD_BASE :: nat where
  "WORD_BASE = 0x100000000"

definition felt_shift_add :: "nat \<Rightarrow> u32 \<Rightarrow> nat" where
  "felt_shift_add acc w = (acc * WORD_BASE + unat w) mod felt_prime"

definition words_to_u128 :: "u32 \<Rightarrow> u32 \<Rightarrow> u32 \<Rightarrow> u32 \<Rightarrow> u128 vault_result" where
  "words_to_u128 w0 w1 w2 w3 =
     (let acc = 0;
          acc = felt_shift_add acc w0;
          acc = felt_shift_add acc w1;
          acc = felt_shift_add acc w2;
          acc = felt_shift_add acc w3
      in if acc < 2 ^ 128 then Inr (word_of_nat acc) else Inl LIMB_OVERFLOW)"

definition words_to_u256 :: "sha_words \<Rightarrow> u256 vault_result" where
  "words_to_u256 words =
     (case words of (w0, w1, w2, w3, w4, w5, w6, w7) \<Rightarrow>
        and_then (words_to_u128 w0 w1 w2 w3) (\<lambda>hi.
        and_then (words_to_u128 w4 w5 w6 w7) (\<lambda>lo.
        Inr \<lparr>low = lo, high = hi\<rparr>)))"

definition sha256_digest :: "call_env \<Rightarrow> ByteArray \<Rightarrow> u256 vault_result" where
  "sha256_digest env preimage = words_to_u256 (compute_sha256_byte_array env preimage)"

subsection \<open>Constructor and entrypoints\<close>

text \<open>
  An entrypoint either panics, which reverts the transaction and leaves the storage as
  it was, or returns the new storage. The checks are made in the order of the source.
  The event values that the entrypoints build are left out: they are not stored and
  no token call depends on them. The token is assumed not to call back into the vault.
\<close>

definition constructor ::
  "ContractAddress \<Rightarrow> ContractAddress \<Rightarrow> ContractAddress \<Rightarrow> ContractAddress \<Rightarrow> u64 \<Rightarrow> u256
     \<Rightarrow> Storage vault_result" where
  "constructor own operator treasury ast window limit =
     and_then (ensure_non_zero own OWNER_ZERO) (\<lambda>_.
     and_then (ensure_non_zero operator OPERATOR_ZERO) (\<lambda>_.
     and_then (ensure_non_zero treasury TREASURY_ZERO) (\<lambda>_.
     and_then (ensure_non_zero ast ASSET_ZERO) (\<lambda>_.
     and_then (validate_expiry_window window) (\<lambda>_.
     and_then (ensure_non_zero_limit limit) (\<lambda>_.
     Inr \<lparr>owner = own, protocol_operator = operator, protocol_treasury = treasury,
          asset = ast, expiry_window = window, payment_limit = limit,
          hashlocks = (\<lambda>_. EscrowPosition_default)\<rparr>))))))"

definition lock_for_ln_payment ::
  "call_env \<Rightarrow> Storage \<Rightarrow> ContractAddress \<Rightarrow> u256 \<Rightarrow> u256
     \<Rightarrow> (Storage \<times> token_call list) vault_result" where
  "lock_for_ln_payment env self usr amt hash =
     and_then (ensure_non_zero usr USER_ZERO) (\<lambda>_.
     and_then (require_caller env usr NOT_USER) (\<lambda>_.
     let now = block_timestamp env; window = expiry_window self in
     and_then (u64_add now window) (\<lambda>expires.
     and_then (assert_non_zero_amount amt) (\<lambda>_.
     and_then (ensure_amount_within_limit amt (payment_limit self)) (\<lambda>_.
     let existing = hashlocks self hash in
     and_then (cairo_assert (phase existing = NonePhase) HASH_REUSED) (\<lambda>_.
     let call = TransferFrom (asset self) usr (contract_address env) amt in
     and_then (assert_token env call TRANSFER_FROM_FAIL) (\<lambda>_.
     let escrow = \<lparr>phase = Locked, user = usr, amount = amt, expires_at = expires,
                    locked_at = now\<rparr>
     in Inr (self\<lparr>hashlocks := (hashlocks self)(hash := escrow)\<rparr>, [call]))))))))"

definition claim ::
  "call_env \<Rightarrow> Storage \<Rightarrow> u256 \<Rightarrow> ByteArray \<Rightarrow> (Storage \<times> token_call list) vault_result" where
  "claim env self hash preimage =
     and_then (require_caller env (protocol_operator self) NOT_OPERATOR) (\<lambda>_.
     let escrow = hashlocks self hash in
     and_then (cairo_assert (phase escrow = Locked) NOT_LOCKED) (\<lambda>_.
     and_then (sha256_digest env preimage) (\<lambda>computed.
     and_then (cairo_assert (computed = hash) HASH_MISMATCH) (\<lambda>_.
     let call = Transfer (asset self) (protocol_treasury self) (amount escrow) in
     and_then (assert_token env call TRANSFER_FAIL) (\<lambda>_.
     Inr (self\<lparr>hashlocks := (hashlocks self)(hash := escrow\<lparr>phase := Claimed\<rparr>)\<rparr>, [call]))))))"

definition refund ::
  "call_env \<Rightarrow> Storage \<Rightarrow> u256 \<Rightarrow> (Storage \<times> token_call list) vault_result" where
  "refund env self hash =
     (let escrow = hashlocks self hash in
      and_then (cairo_assert (phase escrow = Locked) NOT_LOCKED) (\<lambda>_.
      let now = block_timestamp env in
      and_then (cairo_assert (now \<ge> expires_at escrow) ESCROW_ACTIVE) (\<lambda>_.
      let call = Transfer (asset self) (user escrow) (amount escrow) in
      and_then (assert_token env call TRANSFER_FAIL) (\<lambda>_.
      Inr (self\<lparr>hashlocks := (hashlocks self)(hash := escrow\<lparr>phase := Refunded\<rparr>)\<rparr>, [call])))))"

definition operator_refund ::
  "call_env \<Rightarrow> Storage \<Rightarrow> u256 \<Rightarrow> (Storage \<times> token_call list) vault_result" where
  "operator_refund env self hash =
     and_then (require_caller env (protocol_operator self) NOT_OPERATOR) (\<lambda>_.
     let escrow = hashlocks self hash in
     and_then (cairo_assert (phase escrow = Locked) NOT_LOCKED) (\<lambda>_.
     let call = Transfer (asset self) (user escrow) (amount escrow) in
     and_then (assert_token env call TRANSFER_FAIL) (\<lambda>_.
     Inr (self\<lparr>hashlocks := (hashlocks self)(hash := escrow\<lparr>phase := Refunded\<rparr>)\<rparr>, [call]))))"

definition get_escrow :: "Storage \<Rightarrow> u256 \<Rightarrow> EscrowPosition" where
  "get_escrow self hash = hashlocks self hash"

definition transfer_ownership :: "call_env \<Rightarrow> Storage \<Rightarrow> ContractAddress \<Rightarrow> Storage vault_result" where
  "transfer_ownership env self new_owner =
     and_then (ensure_non_zero new_owner OWNER_ZERO) (\<lambda>_.
     and_then (require_caller env (owner self) NOT_OWNER) (\<lambda>_.
     Inr (self\<lparr>owner := new_owner\<rparr>)))"

definition update_protocol_operator ::
  "call_env \<Rightarrow> Storage \<Rightarrow> ContractAddress \<Rightarrow> Storage vault_result" where
  "update_protocol_operator env self new_operator =
     and_then (ensure_non_zero new_operator OPERATOR_ZERO) (\<lambda>_.
     and_then (require_caller env (owner self) NOT_OWNER) (\<lambda>_.
     Inr (self\<lparr>protocol_operator := new_operator\<rparr>)))"

definition update_protocol_treasury ::
  "call_env \<Rightarrow> Storage \<Rightarrow> ContractAddress \<Rightarrow> Storage vault_result" where
  "update_protocol_treasury env self new_treasury =
     and_then (ensure_non_zero new_treasury TREASURY_ZERO) (\<lambda>_.
     and_then (require_caller env (owner self) NOT_OWNER) (\<lambda>_.
     Inr (self\<lparr>protocol_treasury := new_treasury\<rparr>)))"

definition update_asset :: "call_env \<Rightarrow> Storage \<Rightarrow> ContractAddress \<Rightarrow> Storage vault_result" where
  "update_asset env self new_asset =
     and_then (ensure_non_zero new_asset ASSET_ZERO) (\<lambda>_.
     and_then (require_caller env (owner self) NOT_OWNER) (\<lambda>_.
     Inr (self\<lparr>asset := new_asset\<rparr>)))"

definition update_expiry_window :: "call_env \<Rightarrow> Storage \<Rightarrow> u64 \<Rightarrow> Storage vault_result" where
  "update_expiry_window env self new_expiry_window =
     and_then (validate_expiry_window new_expiry_window) (\<lambda>_.
     and_then (require_caller env (owner self) NOT_OWNER) (\<lambda>_.
     Inr (self\<lparr>expiry_window := new_expiry_window\<rparr>)))"

subsection \<open>Transactions and the contract's lifetime\<close>

datatype vault_call =
    Lock_for_ln_payment ContractAddress u256 u256
  | Claim u256 ByteArray
  | Refund u256
  | Operator_refund u256
  | Transfer_ownership ContractAddress
  | Update_protocol_operator ContractAddress
  | Update_protocol_treasury ContractAddress
  | Update_asset ContractAddress
  | Update_expiry_window u64

definition no_calls :: "Storage vault_result \<Rightarrow> (Storage \<times> token_call list) vault_result" where
  "no_calls r = and_then r (\<lambda>s. Inr (s, []))"

fun execute :: "call_env \<Rightarrow> Storage \<Rightarrow> vault_call \<Rightarrow> (Storage \<times> token_call list) vault_result" where
  "execute env self (Lock_for_ln_payment usr amt hash) = lock_for_ln_payment env self usr amt hash"
| "execute env self (Claim hash preimage) = claim env self hash preimage"
| "execute env self (Refund hash) = refund env self hash"
| "execute env self (Operator_refund hash) = operator_refund env self hash"
| "execute env self (Transfer_ownership a) = no_calls (transfer_ownership env self a)"
| "execute env self (Update_protocol_operator a) = no_calls (update_protocol_operator env self a)"
| "execute env self (Update_protocol_treasury a) = no_calls (update_protocol_treasury env self a)"
| "execute env self (Update_asset a) = no_calls (update_asset env self a)"
| "execute env self (Update_expiry_window w) = no_calls (update_expiry_window env self w)"

text \<open>The storages the contract can be in: deployed by a successful constructor, then
  changed by successful transactions only (a failed one reverts).\<close>

inductive reachable :: "Storage \<Rightarrow> bool" where
  deployed: "constructor own operator treasury ast window limit = Inr self \<Longrightarrow> reachable self"
| transacted: "reachable self \<Longrightarrow> execute env self c = Inr (self', calls) \<Longrightarrow> reachable self'"

text \<open>One step of the phase diagram, or no step.\<close>
definition phase_step :: "EscrowPhase \<Rightarrow> EscrowPhase \<Rightarrow> bool" where
  "phase_step p q =
     (p = q \<or> (p = NonePhase \<and> q = Locked) \<or> (p = Locked \<and> (q = Claimed \<or> q = Refunded)))"

text \<open>The eight digest words read as one big-endian number.\<close>
definition be_words_val :: "sha_words \<Rightarrow> nat" where
  "be_words_val words =
     (case words of (w0, w1, w2, w3, w4, w5, w6, w7) \<Rightarrow>
        unat w0 * 2 ^ 224 + unat w1 * 2 ^ 192 + unat w2 * 2 ^ 160 + unat w3 * 2 ^ 128
        + unat w4 * 2 ^ 96 + unat w5 * 2 ^ 64 + unat w6 * 2 ^ 32 + unat w7)"

definition be_u128_val :: "u32 \<Rightarrow> u32 \<Rightarrow> u32 \<Rightarrow> u32 \<Rightarrow> nat" where
  "be_u128_val w0 w1 w2 w3 = unat w0 * 2 ^ 96 + unat w1 * 2 ^ 64 + unat w2 * 2 ^ 32 + unat w3"

text \<open>Any number of successful transactions, one after the other.\<close>
inductive evolves :: "Storage \<Rightarrow> Storage \<Rightarrow> bool" where
  evolves_refl: "evolves self self"
| evolves_step: "evolves self mid \<Longrightarrow> execute env mid c = Inr (self', calls) \<Longrightarrow> evolves self self'"

definition phase_order :: "EscrowPhase \<Rightarrow> EscrowPhase \<Rightarrow> bool" where
  "phase_order p q = (p = q \<or> p = NonePhase \<or> (p = Locked \<and> (q = Claimed \<or> q = Refunded)))"

definition terminal :: "EscrowPhase \<Rightarrow> bool" where
  "terminal p = (p = Claimed \<or> p = Refunded)"

definition scenario_storage :: Storage where
  "scenario_storage =
     \<lparr>owner = 0x101, protocol_operator = 0x202, protocol_treasury = 0x303, asset = 0x404,
      expiry_window = 3600, payment_limit = \<lparr>low = 10000, high = 0\<rparr>,
      hashlocks = (\<lambda>_. EscrowPosition_default)\<rparr>"

definition scenario_hash :: u256 where
  "scenario_hash = \<lparr>low = 7, high = 9\<rparr>"

definition scenario_env :: "ContractAddress \<Rightarrow> u64 \<Rightarrow> bool \<Rightarrow> call_env" where
  "scenario_env who t ok =
     \<lparr>caller_address = who, block_timestamp = t, contract_address = 0x606,
      token = (\<lambda>_. Returns ok),
      compute_sha256_byte_array = (\<lambda>_. (0, 0, 0, 9, 0, 0, 0, 7))\<rparr>"

definition scenario_locked :: Storage where
  "scenario_locked = scenario_storage\<lparr>hashlocks := (hashlocks scenario_storage)(scenario_hash :=
      \<lparr>phase = Locked, user = 0x505, amount = \<lparr>low = 5000, high = 0\<rparr>, expires_at = 4600,
       locked_at = 1000\<rparr>)\<rparr>"

definition scenario_claimed :: Storage where
  "scenario_claimed = scenario_locked\<lparr>hashlocks := (hashlocks scenario_locked)(scenario_hash :=
      (hashlocks scenario_locked scenario_hash)\<lparr>phase := Claimed\<rparr>)\<rparr>"

definition scenario_refunded :: Storage where
  "scenario_refunded = scenario_locked\<lparr>hashlocks := (hashlocks scenario_locked)(scenario_hash :=
      (hashlocks scenario_locked scenario_hash)\<lparr>phase := Refunded\<rparr>)\<rparr>"

section \<open>The off-chain services (JavaScript)\<close>

subsection \<open>Values, strings and exceptions\<close>

text \<open>
  A JavaScript Number is a double: a finite rational, or one of the three special
  values. Strings are modelled as byte strings; only ASCII letters change case.
\<close>

datatype jsnumber = Finite rat | NaN | PosInfinity | NegInfinity

datatype jsval =
    JNull | JUndefined | JBool bool | JNumber jsnumber | JBigInt int | JString string
  | JObject "(string \<times> jsval) list" | JFunction

text \<open>A thrown error object with the properties the code reads and sets.\<close>

record js_error =
  err_message :: string
  err_code :: "string option"
  err_status :: "int option"
  err_paymentLogged :: bool

type_synonym 'a js_result = "js_error + 'a"

definition new_Error :: "string \<Rightarrow> js_error" where
  "new_Error msg = \<lparr>err_message = msg, err_code = None, err_status = None, err_paymentLogged = False\<rparr>"

definition new_coded_Error :: "string \<Rightarrow> int \<Rightarrow> string \<Rightarrow> js_error" where
  "new_coded_Error msg st cd = (new_Error msg)\<lparr>err_code := Some cd, err_status := Some st\<rparr>"

definition toLowerCase_char :: "char \<Rightarrow> char" where
  "toLowerCase_char c =
     (case map_of (zip ''ABCDEFGHIJKLMNOPQRSTUVWXYZ'' ''abcdefghijklmnopqrstuvwxyz'') c of
        None \<Rightarrow> c | Some d \<Rightarrow> d)"

definition toLowerCase :: "string \<Rightarrow> string" where
  "toLowerCase s = map toLowerCase_char s"

text \<open>\<open>haystack.str_includes(needle)\<close> and \<open>s.startsWith(p)\<close>.\<close>

fun startsWith :: "string \<Rightarrow> string \<Rightarrow> bool" where
  "startsWith s [] = True"
| "startsWith [] (p # ps) = False"
| "startsWith (c # cs) (p # ps) = (c = p \<and> startsWith cs ps)"

fun str_includes :: "string \<Rightarrow> string \<Rightarrow> bool" where
  "str_includes [] needle = (needle = [])"
| "str_includes (c # cs) needle = (startsWith (c # cs) needle \<or> str_includes cs needle)"

text \<open>The regular expression class \<open>\d\<close>, which is \<open>[0-9]\<close>.\<close>

definition isDigit :: "char \<Rightarrow> bool" where
  "isDigit c = (c \<in> set ''0123456789'')"

definition digit_value :: "char \<Rightarrow> int" where
  "digit_value c =
     (case map_of (zip ''0123456789'' [0, 1, 2, 3, 4, 5, 6, 7, 8, 9]) c of None \<Rightarrow> 0 | Some d \<Rightarrow> d)"

text \<open>\<open>BigInt(ds)\<close> for a string of decimal digits.\<close>

definition BigInt_of_digits :: "string \<Rightarrow> int" where
  "BigInt_of_digits ds = foldl (\<lambda>acc c. 10 * acc + digit_value c) 0 ds"

text \<open>
  \<open>value.match(/^(\d+)(a|b|...)?$/i)\<close>: the match succeeds when the string is a non-empty
  run of digits followed by nothing or by one of the alternatives in any letter case,
  and the first group is the run of digits. The greedy \<open>\d+\<close> cannot give a digit
  back, since what follows it is a letter or the end of the input.
\<close>

definition match_digits_suffix :: "string list \<Rightarrow> string \<Rightarrow> string option" where
  "match_digits_suffix alternatives s =
     (let ds = takeWhile isDigit s; rest = dropWhile isDigit s
      in if ds \<noteq> [] \<and> (rest = [] \<or> toLowerCase rest \<in> set alternatives) then Some ds else None)"

text \<open>\<open>value.match(/[0-9]+/g)\<close>: the maximal runs of digits, left to right (an empty list
  where JavaScript gives \<open>null\<close>).\<close>

function digit_runs :: "string \<Rightarrow> string list" where
  "digit_runs [] = []"
| "digit_runs (c # cs) =
     (if isDigit c then (c # takeWhile isDigit cs) # digit_runs (dropWhile isDigit cs)
      else digit_runs cs)"
  by pat_completeness auto
termination
  by (relation "measure length") (auto simp: length_dropWhile_le less_Suc_eq_le)

subsection \<open>Amount parsers (lib/utils.js, lib/invoices.js)\<close>

definition range_error :: js_error where
  "range_error = new_Error ''The number cannot be converted to a BigInt because it is not an integer''"

text \<open>\<open>BigInt(value)\<close> for a Number throws a RangeError unless the number is an integer.\<close>

definition BigInt_of_number :: "jsnumber \<Rightarrow> int js_result" where
  "BigInt_of_number n =
     (case n of
        Finite q \<Rightarrow> if of_int \<lfloor>q\<rfloor> = q then Inr \<lfloor>q\<rfloor> else Inl range_error
      | _ \<Rightarrow> Inl range_error)"

definition Math_trunc :: "rat \<Rightarrow> int" where
  "Math_trunc q = (if 0 \<le> q then \<lfloor>q\<rfloor> else \<lceil>q\<rceil>)"

fun parseMsat :: "jsval \<Rightarrow> int option js_result" where
  "parseMsat JNull = Inr None"
| "parseMsat JUndefined = Inr None"
| "parseMsat (JNumber n) = (case BigInt_of_number n of Inl e \<Rightarrow> Inl e | Inr i \<Rightarrow> Inr (Some i))"
| "parseMsat (JBigInt i) = Inr (Some i)"
| "parseMsat (JString s) =
     (case match_digits_suffix [''msat''] s of
        None \<Rightarrow> Inr None
      | Some m1 \<Rightarrow> Inr (Some (BigInt_of_digits m1)))"
| "parseMsat _ = Inr None"

fun parseSatsValue :: "jsval \<Rightarrow> int option" where
  "parseSatsValue JNull = None"
| "parseSatsValue JUndefined = None"
| "parseSatsValue (JNumber n) = (case n of Finite q \<Rightarrow> Some (Math_trunc q) | _ \<Rightarrow> None)"
| "parseSatsValue (JBigInt i) = Some i"
| "parseSatsValue (JString s) =
     (case match_digits_suffix [''sat'', ''sats''] s of
        Some m1 \<Rightarrow> Some (BigInt_of_digits m1)
      | None \<Rightarrow>
          (let digits = digit_runs s
           in if digits \<noteq> [] then Some (BigInt_of_digits (concat digits)) else None))"
| "parseSatsValue _ = None"

text \<open>\<open>Object.prototype.hasOwnProperty.call(r, k)\<close> and \<open>r[k]\<close> on the own properties.\<close>

definition hasOwnProperty :: "(string \<times> jsval) list \<Rightarrow> string \<Rightarrow> bool" where
  "hasOwnProperty r k = (k \<in> fst ` set r)"

fun property :: "(string \<times> jsval) list \<Rightarrow> string \<Rightarrow> jsval" where
  "property [] k = JUndefined"
| "property ((k', v) # r) k = (if k' = k then v else property r k)"

function parseNumericValue :: "jsval \<Rightarrow> int option" where
  "parseNumericValue JNull = None"
| "parseNumericValue JUndefined = None"
| "parseNumericValue (JBigInt i) = Some i"
| "parseNumericValue (JNumber n) = (case n of Finite q \<Rightarrow> Some (Math_trunc q) | _ \<Rightarrow> None)"
| "parseNumericValue (JString s) =
     (case match_digits_suffix [''msat''] s of
        Some m1 \<Rightarrow> Some (BigInt_of_digits m1)
      | None \<Rightarrow>
          (let digits = digit_runs s
           in if digits \<noteq> [] then Some (BigInt_of_digits (concat digits)) else None))"
| "parseNumericValue (JObject r) =
     (if hasOwnProperty r ''amount'' then parseNumericValue (property r ''amount'')
      else if hasOwnProperty r ''value'' then parseNumericValue (property r ''value'')
      else None)"
| "parseNumericValue (JBool b) = None"
| "parseNumericValue JFunction = None"
  by pat_completeness auto
termination
proof -
  have sz: "size (property r k) < Suc (size_list (size_prod (\<lambda>_. 0) size) r)" for r k
    by (induction r) auto
  show ?thesis
    by (relation "measure size") (auto simp: sz)
qed

subsection \<open>The operator's nonce lane (lib/starknet.js)\<close>

text \<open>
  The module state of the lane: the operator account, once initialised, and the next
  nonce (\<open>null\<close> until it is read from the chain). Calls go through a promise chain
  that runs them one at a time in arrival order, so one call is a function from the
  state before it to its outcome and the state after it. The submission \<open>fn\<close> is
  given the module state as it is when it is called.
\<close>

record 'acct lane_state =
  operatorAccountRef :: "'acct option"
  nonceState_next :: "int option"

definition getOperatorAccount :: "'acct lane_state \<Rightarrow> 'acct js_result" where
  "getOperatorAccount st =
     (case operatorAccountRef st of
        None \<Rightarrow> Inl (new_Error ''Operator account not initialised'')
      | Some account \<Rightarrow> Inr account)"

definition isNonceSyncError :: "js_error \<Rightarrow> bool" where
  "isNonceSyncError err =
     (let message = toLowerCase (err_message err)
      in if \<not> str_includes message ''nonce'' then False
         else (str_includes message ''low''
               \<or> str_includes message ''used''
               \<or> str_includes message ''already''
               \<or> str_includes message ''invalid''
               \<or> str_includes message ''out of order''))"

definition withNonce ::
  "('acct \<Rightarrow> int js_result) \<Rightarrow> ('acct lane_state \<Rightarrow> 'acct \<Rightarrow> int \<Rightarrow> 'a js_result)
     \<Rightarrow> 'acct lane_state \<Rightarrow> 'a js_result \<times> 'acct lane_state" where
  "withNonce getNonce fn st =
     (case getOperatorAccount st of
        Inl e \<Rightarrow> (Inl e, st)
      | Inr account \<Rightarrow>
          (case (case nonceState_next st of None \<Rightarrow> getNonce account | Some n \<Rightarrow> Inr n) of
             Inl e \<Rightarrow> (Inl e, st)
           | Inr nonceToUse \<Rightarrow>
               (let st1 = st\<lparr>nonceState_next := Some (nonceToUse + 1)\<rparr>
                in case fn st1 account nonceToUse of
                     Inr v \<Rightarrow> (Inr v, st1)
                   | Inl err \<Rightarrow>
                       (Inl err,
                        if isNonceSyncError err then st1\<lparr>nonceState_next := None\<rparr> else st1))))"

text \<open>The words of the specification: the text \<open>needle\<close> occurs in \<open>s\<close>.\<close>

definition occurs_in :: "string \<Rightarrow> string \<Rightarrow> bool" where
  "occurs_in needle s = (\<exists>before after. s = before @ needle @ after)"

definition nonce_desync_message :: "string \<Rightarrow> bool" where
  "nonce_desync_message msg =
     (occurs_in ''nonce'' (toLowerCase msg)
      \<and> (occurs_in ''low'' (toLowerCase msg) \<or> occurs_in ''used'' (toLowerCase msg)
         \<or> occurs_in ''already'' (toLowerCase msg) \<or> occurs_in ''invalid'' (toLowerCase msg)
         \<or> occurs_in ''out of order'' (toLowerCase msg)))"

definition scenario_lane :: "nat lane_state" where
  "scenario_lane = \<lparr>operatorAccountRef = Some 0x202, nonceState_next = Some 5\<rparr>"

definition scenario_submit :: "nat lane_state \<Rightarrow> nat \<Rightarrow> int \<Rightarrow> string js_result" where
  "scenario_submit st account nonce =
     (if nonce = 5 then Inl (new_Error ''Invalid transaction nonce'') else Inr ''0xabc'')"

subsection \<open>The credit monitor (invoiceMonitor.js)\<close>

text \<open>
  Times are milliseconds since the epoch, as \<open>Date.now()\<close> gives them. The stored
  invoice is a JSON object; a property that is absent, \<open>null\<close> or of another type than
  the code expects is \<open>None\<close>. The amounts of an invoice are stored as strings.
\<close>

record monitor_config =
  RETRY_DELAY_MS :: int
  STALE_PROCESSING_MS :: int

definition default_monitor_config :: monitor_config where
  "default_monitor_config = \<lparr>RETRY_DELAY_MS = 60000, STALE_PROCESSING_MS = 5 * 60000\<rparr>"

record credit_error =
  ce_message :: string
  ce_code :: "string option"

record credit_meta =
  credit_status :: "string option"
  attempts :: "int option"
  last_error :: "credit_error option"
  next_retry_at :: "int option"
  last_attempt_at :: "int option"
  credit_amount_sats :: "int option"
  credit_tx_hash :: "string option"
  credit_amount_units :: "string option"
  credited_at :: "int option"

record invoice_record =
  invoice_status :: "string option"
  credit_address :: "string option"
  amount_sats :: "string option"
  amount_msat :: "string option"
  credit :: "credit_meta option"

record transfer_result =
  tx_hash :: "string option"
  amount_units :: "string option"

definition MSATS_PER_SAT :: int where
  "MSATS_PER_SAT = 1000"

text \<open>\<open>String.prototype.trim\<close> on the white space of a byte string.\<close>

definition isWhiteSpace :: "char \<Rightarrow> bool" where
  "isWhiteSpace c = ((of_char c :: nat) \<in> {9, 10, 11, 12, 13, 32, 160})"

definition trim :: "string \<Rightarrow> string" where
  "trim s = rev (dropWhile isWhiteSpace (rev (dropWhile isWhiteSpace s)))"

definition isLowerHex :: "char \<Rightarrow> bool" where
  "isLowerHex c = (c \<in> set ''0123456789abcdef'')"

text \<open>\<open>normalizeStarknet\<close> of lib/utils.js; the test is \<open>/^0x[0-9a-f]{1,66}$/\<close>.\<close>

definition normalizeStarknet :: "string option \<Rightarrow> string option" where
  "normalizeStarknet addr =
     (case addr of
        None \<Rightarrow> None
      | Some s \<Rightarrow>
          (let a = toLowerCase (trim s)
           in if \<not> startsWith a ''0x'' then None
              else if \<not> (list_all isLowerHex (drop 2 a) \<and> 1 \<le> length (drop 2 a)
                         \<and> length (drop 2 a) \<le> 66) then None
              else Some a))"

definition ensureCreditMeta :: "invoice_record \<Rightarrow> credit_meta" where
  "ensureCreditMeta invoice =
     (let c = (case credit invoice of
                 None \<Rightarrow> \<lparr>credit_status = Some ''pending'', attempts = Some 0, last_error = None,
                           next_retry_at = None, last_attempt_at = None,
                           credit_amount_sats = None, credit_tx_hash = None,
                           credit_amount_units = None, credited_at = None\<rparr>
               | Some c \<Rightarrow> c)
      in if attempts c = None then c\<lparr>attempts := Some 0\<rparr> else c)"

definition resolveInvoiceAmountSats :: "invoice_record \<Rightarrow> int option" where
  "resolveInvoiceAmountSats invoice =
     (case (case amount_sats invoice of None \<Rightarrow> None | Some s \<Rightarrow> parseSatsValue (JString s)) of
        Some parsed \<Rightarrow> Some parsed
      | None \<Rightarrow>
          (case amount_msat invoice of
             None \<Rightarrow> None
           | Some s \<Rightarrow>
               (case parseMsat (JString s) of
                  Inr (Some parsedMsat) \<Rightarrow> Some (parsedMsat div MSATS_PER_SAT)
                | _ \<Rightarrow> None)))"

definition shouldDelayRetry :: "credit_meta \<Rightarrow> int \<Rightarrow> bool" where
  "shouldDelayRetry c now =
     (if credit_status c \<noteq> Some ''failed'' then False
      else case next_retry_at c of
             None \<Rightarrow> False
           | Some t \<Rightarrow> if t = 0 then False else now < t)"

definition resetStuckProcessing :: "monitor_config \<Rightarrow> credit_meta \<Rightarrow> int \<Rightarrow> credit_meta" where
  "resetStuckProcessing cfg c now =
     (if credit_status c \<noteq> Some ''processing'' then c
      else let lastAttempt = (case last_attempt_at c of None \<Rightarrow> 0 | Some t \<Rightarrow> t)
           in if now - lastAttempt > STALE_PROCESSING_MS cfg
              then c\<lparr>credit_status := Some ''pending'',
                     last_error := Some \<lparr>ce_message = ''Recovered from stale processing state'',
                                          ce_code = Some ''stale_processing''\<rparr>\<rparr>
              else c)"

text \<open>What the first store update of \<open>attemptCredit\<close> decides: stop with a reason, or go
  on to the transfer with a recipient and an amount.\<close>

datatype credit_context = Stop string | Proceed string int

definition attemptCredit_begin ::
  "monitor_config \<Rightarrow> int \<Rightarrow> invoice_record \<Rightarrow> credit_context \<times> invoice_record" where
  "attemptCredit_begin cfg now invoice =
     (let c = resetStuckProcessing cfg (ensureCreditMeta invoice) now
      in if credit_status c = Some ''credited''
         then (Stop ''already_credited'', invoice\<lparr>credit := Some c\<rparr>)
         else if shouldDelayRetry c now
         then (Stop ''retry_wait'', invoice\<lparr>credit := Some c\<rparr>)
         else case normalizeStarknet (credit_address invoice) of
            None \<Rightarrow>
              (Stop ''invalid_address'',
               invoice\<lparr>credit := Some (c\<lparr>credit_status := Some ''failed'',
                  last_error := Some \<lparr>ce_message = ''Invalid credit address'',
                                       ce_code = Some ''invalid_address''\<rparr>,
                  next_retry_at := Some (now + RETRY_DELAY_MS cfg)\<rparr>)\<rparr>)
          | Some recipient \<Rightarrow>
              (let amountSats = resolveInvoiceAmountSats invoice
               in if amountSats = None \<or> (case amountSats of None \<Rightarrow> False | Some a \<Rightarrow> a \<le> 0)
                  then (Stop ''missing_amount'',
                        invoice\<lparr>credit := Some (c\<lparr>credit_status := Some ''failed'',
                           last_error := Some \<lparr>ce_message = ''Missing invoice amount'',
                                                ce_code = Some ''missing_amount''\<rparr>,
                           next_retry_at := Some (now + RETRY_DELAY_MS cfg)\<rparr>)\<rparr>)
                  else (Proceed recipient (case amountSats of None \<Rightarrow> 0 | Some a \<Rightarrow> a),
                        invoice\<lparr>credit := Some (c\<lparr>credit_status := Some ''processing'',
                           attempts := Some ((case attempts c of None \<Rightarrow> 0 | Some n \<Rightarrow> n) + 1),
                           last_error := None,
                           last_attempt_at := Some now,
                           credit_amount_sats := amountSats,
                           next_retry_at := None\<rparr>)\<rparr>)))"

text \<open>\<open>serializeError(err) || { message: ... }\<close>, with the message and the code.\<close>

definition serialize_credit_error :: "js_error \<Rightarrow> credit_error" where
  "serialize_credit_error err =
     \<lparr>ce_message = (if err_message err \<noteq> [] then err_message err else ''Error''),
      ce_code = err_code err\<rparr>"

text \<open>
  \<open>attemptCredit\<close> for an invoice that is in the store. \<open>requestTransfer\<close> is the
  call to the operator service; \<open>now\<close> and \<open>later\<close> are the clock readings before
  and after it. The result is the stored invoice and the transfer requests made.
\<close>

definition attemptCredit ::
  "monitor_config \<Rightarrow> (string \<Rightarrow> int \<Rightarrow> transfer_result js_result) \<Rightarrow> int \<Rightarrow> int
     \<Rightarrow> invoice_record \<Rightarrow> invoice_record \<times> (string \<times> int) list" where
  "attemptCredit cfg requestTransfer now later invoice0 =
     (case attemptCredit_begin cfg now invoice0 of
        (Stop reason, invoice) \<Rightarrow> (invoice, [])
      | (Proceed recipient amountSats, invoice) \<Rightarrow>
          (let c = ensureCreditMeta invoice
           in case requestTransfer recipient amountSats of
                Inr transferResult \<Rightarrow>
                  (invoice\<lparr>credit := Some (c\<lparr>credit_status := Some ''credited'',
                      credit_tx_hash := tx_hash transferResult,
                      credit_amount_units :=
                        (case amount_units transferResult of
                           Some u \<Rightarrow> Some u | None \<Rightarrow> credit_amount_units c),
                      last_error := None,
                      credited_at := Some later,
                      next_retry_at := None\<rparr>)\<rparr>,
                   [(recipient, amountSats)])
              | Inl err \<Rightarrow>
                  (invoice\<lparr>credit := Some (c\<lparr>credit_status := Some ''failed'',
                      last_error := Some (serialize_credit_error err),
                      next_retry_at := Some (later + RETRY_DELAY_MS cfg)\<rparr>)\<rparr>,
                   [(recipient, amountSats)])))"

text \<open>The monitor attempts the credit of a paid invoice on every tick.\<close>

fun attemptCredit_ticks ::
  "monitor_config \<Rightarrow> (string \<Rightarrow> int \<Rightarrow> transfer_result js_result) \<Rightarrow> (int \<times> int) list
     \<Rightarrow> invoice_record \<Rightarrow> invoice_record \<times> (string \<times> int) list" where
  "attemptCredit_ticks cfg requestTransfer [] invoice = (invoice, [])"
| "attemptCredit_ticks cfg requestTransfer ((now, later) # ticks) invoice =
     (case attemptCredit cfg requestTransfer now later invoice of
        (invoice', sent) \<Rightarrow>
          (case attemptCredit_ticks cfg requestTransfer ticks invoice' of
             (invoice'', sent') \<Rightarrow> (invoice'', sent @ sent')))"

definition scenario_invoice :: "string \<Rightarrow> int \<Rightarrow> invoice_record" where
  "scenario_invoice st attempted =
     \<lparr>invoice_status = Some ''paid'', credit_address = Some ''0x0505'',
      amount_sats = Some ''5000'', amount_msat = None,
      credit = Some \<lparr>credit_status = Some st, attempts = Some 1, last_error = None,
                     next_retry_at = None, last_attempt_at = Some attempted,
                     credit_amount_sats = Some 5000, credit_tx_hash = None,
                     credit_amount_units = None, credited_at = None\<rparr>\<rparr>"

definition scenario_transfer :: "string \<Rightarrow> int \<Rightarrow> transfer_result js_result" where
  "scenario_transfer recipient sats = Inr \<lparr>tx_hash = Some ''0xfeed'', amount_units = Some ''5000''\<rparr>"

subsection \<open>The payment store (lib/localStoreHelpers.js)\<close>

text \<open>
  A payment entry of the store, with the fields the orchestrator's outcome depends on:
  the status, the Lightning and Starknet sub-states and the history. Time stamps and
  the snapshots of the request, the escrow and the invoice are left out.
\<close>

record serialized_error =
  se_message :: string
  se_code :: "string option"
  se_status :: "int option"

record history_item =
  history_event :: string
  history_code :: "string option"

record payment_entry =
  payment_status :: string
  lightning_status :: "string option"
  lightning_error :: "serialized_error option"
  lightning_invoice_status :: "string option"
  lightning_amount_sats :: "int option"
  lightning_payment_preimage :: "string option"
  lightning_bolt11 :: "string option"
  starknet_status :: "string option"
  escrow_amount_sats :: "int option"
  history :: "history_item list"

text \<open>A string or \<open>null\<close>/\<open>undefined\<close> in a condition, and \<open>a || b\<close>.\<close>

definition truthy :: "string option \<Rightarrow> bool" where
  "truthy v = (case v of None \<Rightarrow> False | Some s \<Rightarrow> s \<noteq> [])"

definition js_or :: "string option \<Rightarrow> string option \<Rightarrow> string option" where
  "js_or a b = (if truthy a then a else b)"

definition serializeError :: "js_error \<Rightarrow> serialized_error" where
  "serializeError err =
     \<lparr>se_message = (if err_message err \<noteq> [] then err_message err else ''Error''),
      se_code = err_code err, se_status = err_status err\<rparr>"

definition strip_0x :: "string \<Rightarrow> string" where
  "strip_0x paymentHash = (if startsWith paymentHash ''0x'' then drop 2 paymentHash else paymentHash)"

definition ensureEntry :: "(string \<rightharpoonup> payment_entry) \<Rightarrow> string \<Rightarrow> payment_entry" where
  "ensureEntry db paymentHash =
     (case db (toLowerCase paymentHash) of
        Some entry \<Rightarrow> entry
      | None \<Rightarrow> \<lparr>payment_status = ''created'', lightning_status = None, lightning_error = None,
                  lightning_invoice_status = None, lightning_amount_sats = None,
                  lightning_payment_preimage = None, lightning_bolt11 = None,
                  starknet_status = None, escrow_amount_sats = None, history = []\<rparr>)"

definition pushHistory :: "payment_entry \<Rightarrow> string \<Rightarrow> string option \<Rightarrow> payment_entry" where
  "pushHistory entry ev cd =
     (if ev = [] then entry
      else entry\<lparr>history := history entry @ [\<lparr>history_event = ev, history_code = cd\<rparr>]\<rparr>)"

subsection \<open>The orchestrator's state and its collaborators (lib/paymentProcessor.js)\<close>

datatype external_call =
    Call_get_escrow string
  | Call_listinvoices string
  | Call_pay "string option"
  | Call_listpays string
  | Call_claim string string

text \<open>
  The module state (the two sets of hashes), the store, and a log of the calls made to
  the chain, the Lightning node and the operator service. \<open>store_ops\<close> counts the
  store updates attempted so far.
\<close>

record orch_state =
  inflightHashes :: "string set"
  processedHashes :: "string set"
  payments :: "string \<rightharpoonup> payment_entry"
  store_ops :: nat
  external_calls :: "external_call list"

record cln_invoice =
  inv_amount_msat :: jsval
  inv_amount_received_msat :: jsval
  inv_paid_msat :: jsval
  inv_amount_sats :: jsval
  inv_amount_sat :: jsval
  inv_bolt11 :: "string option"
  inv_payreq :: "string option"
  inv_label :: "string option"
  inv_status :: "string option"
  inv_payment_preimage :: "string option"
  inv_preimage :: "string option"

record cln_pay =
  pay_status :: "string option"
  pay_payment_preimage :: "string option"
  pay_preimage :: "string option"

record pay_result =
  paid_payment_hash :: "string option"
  paid_amount_msat :: jsval
  paid_payment_preimage :: "string option"
  paid_preimage :: "string option"

record claim_result =
  claim_status :: "string option"
  claim_tx_hash :: "string option"

record decoded_bolt11 =
  decoded_payment_hash :: "string option"
  decoded_amount_section :: "jsval option"
  decoded_amount_fields :: "jsval list"

text \<open>
  What the collaborators answer: the chain's \<open>get_escrow\<close>, the Lightning node's
  \<open>listinvoices\<close>, \<open>listpays\<close> and \<open>pay\<close>, the operator service's \<open>/claim\<close>, the
  BOLT11 decoder library, the runtime's \<open>BigInt(String(v))\<close> (\<open>None\<close> when it throws),
  and whether the n-th update of the store file fails.
\<close>

record orch_env =
  chain_get_escrow :: "string \<Rightarrow> EscrowPosition js_result"
  cln_listinvoices :: "string \<Rightarrow> cln_invoice list js_result"
  cln_listpays :: "string \<Rightarrow> cln_pay list js_result"
  cln_pay :: "string option \<Rightarrow> pay_result js_result"
  operator_requestClaim :: "string \<Rightarrow> string \<Rightarrow> claim_result js_result"
  lightBolt11_decode :: "string \<Rightarrow> decoded_bolt11 js_result"
  BigInt_of_String :: "jsval \<Rightarrow> int option"
  store_fault :: "nat \<Rightarrow> bool"

record locked_position =
  locked_user :: ContractAddress
  locked_paymentHashHex :: string
  locked_amount :: int
  expiresAt :: int
  lockedAt :: int

record pay_outcome =
  outcome_status :: string
  outcome_lightning_status :: string
  outcome_payment_preimage :: "string option"
  outcome_starknet_status :: string
  outcome_tx_hash :: "string option"

text \<open>A computation on the state that returns or throws.\<close>

type_synonym 'a orch = "orch_state \<Rightarrow> 'a js_result \<times> orch_state"

definition return_m :: "'a \<Rightarrow> 'a orch" where
  "return_m v st = (Inr v, st)"

definition throw_m :: "js_error \<Rightarrow> 'a orch" where
  "throw_m e st = (Inl e, st)"

definition lift_m :: "'a js_result \<Rightarrow> 'a orch" where
  "lift_m r st = (r, st)"

definition bind_m :: "'a orch \<Rightarrow> ('a \<Rightarrow> 'b orch) \<Rightarrow> 'b orch" where
  "bind_m m k st = (case m st of (Inl e, st') \<Rightarrow> (Inl e, st') | (Inr v, st') \<Rightarrow> k v st')"

text \<open>\<open>try { m } catch (err) { handler(err) }\<close> and \<open>try { m } finally { cleanup }\<close>.\<close>

definition catch_m :: "'a orch \<Rightarrow> (js_error \<Rightarrow> 'a orch) \<Rightarrow> 'a orch" where
  "catch_m m handler st =
     (case m st of (Inl e, st') \<Rightarrow> handler e st' | (Inr v, st') \<Rightarrow> (Inr v, st'))"

definition finally_m :: "'a orch \<Rightarrow> (orch_state \<Rightarrow> orch_state) \<Rightarrow> 'a orch" where
  "finally_m m cleanup st = (case m st of (r, st') \<Rightarrow> (r, cleanup st'))"

definition modify_m :: "(orch_state \<Rightarrow> orch_state) \<Rightarrow> unit orch" where
  "modify_m f st = (Inr (), f st)"

definition external_m :: "external_call \<Rightarrow> 'a js_result \<Rightarrow> 'a orch" where
  "external_m c r st = (r, st\<lparr>external_calls := external_calls st @ [c]\<rparr>)"

definition store_error :: js_error where
  "store_error = new_Error ''payment store update failed''"

text \<open>\<open>mutatePayment\<close>: reload the store, change the entry, append to its history, save.
  When the file cannot be read or written the update throws and the store is as before.\<close>

definition mutatePayment ::
  "orch_env \<Rightarrow> string \<Rightarrow> (payment_entry \<Rightarrow> payment_entry) \<Rightarrow> string \<Rightarrow> string option
     \<Rightarrow> unit orch" where
  "mutatePayment env paymentHash mutator historyEvent historyCode st =
     (let n = store_ops st; st = st\<lparr>store_ops := Suc n\<rparr>
      in if store_fault env n then (Inl store_error, st)
         else let entry = pushHistory (mutator (ensureEntry (payments st) paymentHash))
                            historyEvent historyCode
              in (Inr (), st\<lparr>payments := (payments st)(toLowerCase paymentHash \<mapsto> entry)\<rparr>))"

definition recordPaymentRequest ::
  "orch_env \<Rightarrow> string \<Rightarrow> locked_position \<Rightarrow> string option \<Rightarrow> unit orch" where
  "recordPaymentRequest env paymentHash locked bolt11 =
     (let bolt11Value = (if truthy bolt11 then bolt11 else None)
      in mutatePayment env (strip_0x paymentHash)
           (\<lambda>entry. entry\<lparr>payment_status := ''received'',
                escrow_amount_sats := Some (locked_amount locked),
                lightning_status := Some ''pending'',
                lightning_error := None,
                lightning_bolt11 :=
                  (if truthy bolt11Value \<and> \<not> truthy (lightning_bolt11 entry) then bolt11Value
                   else lightning_bolt11 entry),
                starknet_status := js_or (starknet_status entry) (Some ''pending'')\<rparr>)
           ''payment_requested'' None)"

definition recordInvoiceDetails ::
  "orch_env \<Rightarrow> string \<Rightarrow> string option \<Rightarrow> int \<Rightarrow> string option \<Rightarrow> unit orch" where
  "recordInvoiceDetails env paymentHash status amountSats bolt11 =
     mutatePayment env (strip_0x paymentHash)
       (\<lambda>entry. entry\<lparr>
            lightning_invoice_status :=
              (case status of None \<Rightarrow> lightning_invoice_status entry | Some s \<Rightarrow> Some s),
            lightning_amount_sats := Some amountSats,
            lightning_bolt11 :=
              (if truthy bolt11 \<and> \<not> truthy (lightning_bolt11 entry) then bolt11
               else lightning_bolt11 entry)\<rparr>)
       ''invoice_attached'' None"

definition recordLightningSuccess ::
  "orch_env \<Rightarrow> string \<Rightarrow> string \<Rightarrow> int \<Rightarrow> string option \<Rightarrow> bool \<Rightarrow> unit orch" where
  "recordLightningSuccess env paymentHash invoiceStatus amountSats paymentPreimage alreadyPaid =
     mutatePayment env (strip_0x paymentHash)
       (\<lambda>entry. entry\<lparr>
            payment_status :=
              (if payment_status entry = ''claimed'' then ''claimed'' else ''awaiting_claim''),
            lightning_status := Some (if alreadyPaid then ''already_paid'' else ''paid''),
            lightning_invoice_status := Some invoiceStatus,
            lightning_amount_sats := Some amountSats,
            lightning_payment_preimage :=
              js_or paymentPreimage (js_or (lightning_payment_preimage entry) None),
            lightning_error := None\<rparr>)
       ''lightning_succeeded'' None"

definition recordLightningFailure :: "orch_env \<Rightarrow> string \<Rightarrow> js_error \<Rightarrow> unit orch" where
  "recordLightningFailure env paymentHash error =
     (let serialized = serializeError error
      in mutatePayment env (strip_0x paymentHash)
           (\<lambda>entry. entry\<lparr>
                payment_status :=
                  (if payment_status entry \<noteq> ''claimed'' then ''lightning_failed''
                   else payment_status entry),
                lightning_status := Some ''failed'',
                lightning_error := Some serialized\<rparr>)
           ''lightning_failed'' (se_code serialized))"

definition markPaymentInflight :: "orch_env \<Rightarrow> string \<Rightarrow> unit orch" where
  "markPaymentInflight env paymentHash =
     mutatePayment env (strip_0x paymentHash)
       (\<lambda>entry. entry\<lparr>
            payment_status :=
              (if payment_status entry \<noteq> [] then payment_status entry else ''processing''),
            lightning_status := Some ''pending''\<rparr>)
       ''processing_inflight'' None"

definition markPaymentAlreadyClaimed :: "orch_env \<Rightarrow> string \<Rightarrow> unit orch" where
  "markPaymentAlreadyClaimed env paymentHash =
     mutatePayment env (strip_0x paymentHash)
       (\<lambda>entry. entry\<lparr>
            payment_status := ''claimed'',
            starknet_status :=
              (if \<not> truthy (starknet_status entry) \<or> starknet_status entry = Some ''pending''
               then Some ''claimed'' else starknet_status entry)\<rparr>)
       ''already_claimed'' None"

definition recordPaymentError :: "orch_env \<Rightarrow> string \<Rightarrow> js_error \<Rightarrow> unit orch" where
  "recordPaymentError env paymentHash error =
     (let serialized = serializeError error
      in mutatePayment env (strip_0x paymentHash)
           (\<lambda>entry. entry\<lparr>
                payment_status :=
                  (if payment_status entry \<notin> set [''claimed'', ''claim_failed'', ''lightning_failed'']
                   then ''error'' else payment_status entry),
                lightning_status :=
                  (if \<not> truthy (lightning_status entry) then Some ''pending''
                   else lightning_status entry),
                lightning_error := Some serialized\<rparr>)
           ''processing_error'' (se_code serialized))"

subsection \<open>Reading the lock, the Lightning node and BOLT11 (lib/starknet.js, lib/cln.js, lib/invoices.js)\<close>

text \<open>\<open>phaseIsLocked\<close> on the phase as the contract has it; the encodings of the enum
  that the chain library may hand over all stand for one of the four phases.\<close>

definition phaseIsLocked :: "EscrowPhase \<Rightarrow> bool" where
  "phaseIsLocked p = (p = Locked)"

definition u256ToBigInt :: "u128 \<Rightarrow> u128 \<Rightarrow> int" where
  "u256ToBigInt lo hi = uint lo + uint hi * 2 ^ 128"

definition loadEscrowFromStorage :: "orch_env \<Rightarrow> string \<Rightarrow> locked_position orch" where
  "loadEscrowFromStorage env paymentHashHexNoPrefix =
     bind_m (external_m (Call_get_escrow paymentHashHexNoPrefix)
               (chain_get_escrow env paymentHashHexNoPrefix)) (\<lambda>pos.
     if \<not> phaseIsLocked (phase pos)
     then throw_m (new_Error ''Escrow position not found or not in Locked phase'')
     else return_m \<lparr>locked_user = user pos, locked_paymentHashHex = paymentHashHexNoPrefix,
                     locked_amount = u256ToBigInt (low (amount pos)) (high (amount pos)),
                     expiresAt = uint (expires_at pos), lockedAt = uint (locked_at pos)\<rparr>)"

definition findInvoice :: "orch_env \<Rightarrow> string \<Rightarrow> cln_invoice option orch" where
  "findInvoice env paymentHashHex =
     bind_m (external_m (Call_listinvoices paymentHashHex) (cln_listinvoices env paymentHashHex))
       (\<lambda>invoices. return_m (case invoices of [] \<Rightarrow> None | i # _ \<Rightarrow> Some i))"

definition fetchPayPreimage :: "orch_env \<Rightarrow> string \<Rightarrow> string option orch" where
  "fetchPayPreimage env paymentHashHex =
     catch_m
       (bind_m (external_m (Call_listpays paymentHashHex) (cln_listpays env paymentHashHex))
          (\<lambda>pays.
             case find (\<lambda>pay. pay_status pay \<in> Some ` set [''complete'', ''completed'', ''paid'',
                                                             ''succeeded'']) pays of
               None \<Rightarrow> return_m None
             | Some completed \<Rightarrow>
                 return_m (js_or (pay_payment_preimage completed)
                             (js_or (pay_preimage completed) None))))
       (\<lambda>err. return_m None)"

definition payInvoice :: "orch_env \<Rightarrow> string option \<Rightarrow> pay_result orch" where
  "payInvoice env bolt11 = external_m (Call_pay bolt11) (cln_pay env bolt11)"

definition requestClaim :: "orch_env \<Rightarrow> string \<Rightarrow> string \<Rightarrow> claim_result orch" where
  "requestClaim env paymentHashHex preimageHex =
     external_m (Call_claim paymentHashHex preimageHex)
       (operator_requestClaim env paymentHashHex preimageHex)"

fun first_parsed :: "jsval list \<Rightarrow> int option" where
  "first_parsed [] = None"
| "first_parsed (c # cands) =
     (case parseNumericValue c of Some parsed \<Rightarrow> Some parsed | None \<Rightarrow> first_parsed cands)"

definition decodeBolt11Strict :: "orch_env \<Rightarrow> string option \<Rightarrow> (string \<times> int) js_result" where
  "decodeBolt11Strict env bolt11 =
     (case bolt11 of
        None \<Rightarrow> Inl (new_Error ''BOLT11 invoice is required'')
      | Some b \<Rightarrow>
          if trim b = [] then Inl (new_Error ''BOLT11 invoice is required'')
          else case lightBolt11_decode env (trim b) of
            Inl err \<Rightarrow> Inl (new_Error ''Unable to decode BOLT11 invoice'')
          | Inr decoded \<Rightarrow>
              (let paymentHashNo0x =
                     (if truthy (decoded_payment_hash decoded)
                      then map_option toLowerCase (decoded_payment_hash decoded) else None)
               in case paymentHashNo0x of
                    None \<Rightarrow> Inl (new_Error ''BOLT11 is missing a valid payment hash'')
                  | Some ph \<Rightarrow>
                      if \<not> (length ph = 64 \<and> list_all isLowerHex ph)
                      then Inl (new_Error ''BOLT11 is missing a valid payment hash'')
                      else
                        (let amountMsat =
                               (case decoded_amount_section decoded of
                                  None \<Rightarrow> None | Some v \<Rightarrow> parseNumericValue v);
                             amountMsat =
                               (case amountMsat of
                                  None \<Rightarrow> first_parsed (decoded_amount_fields decoded)
                                | Some a \<Rightarrow> Some a)
                         in case amountMsat of
                              None \<Rightarrow> Inl (new_Error ''BOLT11 invoice is missing an amount'')
                            | Some a \<Rightarrow>
                                if a \<le> 0
                                then Inl (new_Error ''BOLT11 invoice is missing an amount'')
                                else if a mod MSATS_PER_SAT \<noteq> 0
                                then Inl (new_Error ''Invoice amount must resolve to whole sats'')
                                else Inr (ph, a div MSATS_PER_SAT))))"

subsection \<open>Processing a payment request (lib/paymentProcessor.js)\<close>

text \<open>\<open>a ?? b\<close> on two parses that may throw.\<close>

definition nullish :: "int option js_result \<Rightarrow> int option js_result \<Rightarrow> int option js_result" where
  "nullish a b = (case a of Inl e \<Rightarrow> Inl e | Inr (Some v) \<Rightarrow> Inr (Some v) | Inr None \<Rightarrow> b)"

fun first_BigInt :: "orch_env \<Rightarrow> jsval list \<Rightarrow> int option" where
  "first_BigInt env [] = None"
| "first_BigInt env (v # vs) =
     (if v \<noteq> JNull \<and> v \<noteq> JUndefined
      then (case BigInt_of_String env v of Some i \<Rightarrow> Some i | None \<Rightarrow> first_BigInt env vs)
      else first_BigInt env vs)"

text \<open>The block that determines the invoice amount and enforces the hash match.\<close>

definition invoiceAmount_of ::
  "orch_env \<Rightarrow> string \<Rightarrow> cln_invoice option \<Rightarrow> string option \<Rightarrow> int js_result" where
  "invoiceAmount_of env paymentHashHex invoice bolt11 =
     (case invoice of
        Some found \<Rightarrow>
          (case nullish (parseMsat (inv_amount_msat found))
                  (nullish (parseMsat (inv_amount_received_msat found))
                     (parseMsat (inv_paid_msat found))) of
             Inl e \<Rightarrow> Inl e
           | Inr (Some invoiceMsat) \<Rightarrow>
               if invoiceMsat mod MSATS_PER_SAT \<noteq> 0
               then Inl (new_coded_Error ''Invoice amount must resolve to whole sats'' 409
                           ''fractional_sats'')
               else Inr (invoiceMsat div MSATS_PER_SAT)
           | Inr None \<Rightarrow>
               (case first_BigInt env [inv_amount_sats found, inv_amount_sat found] of
                  None \<Rightarrow> Inl (new_coded_Error ''Invoice does not report an amount'' 409
                                 ''invoice_missing_amount'')
                | Some a \<Rightarrow> Inr a))
      | None \<Rightarrow>
          (case decodeBolt11Strict env bolt11 of
             Inl e \<Rightarrow> Inl e
           | Inr (paymentHashNo0x, amountSats) \<Rightarrow>
               if paymentHashNo0x \<noteq> paymentHashHex
               then Inl (new_coded_Error ''BOLT11 payment hash does not match locked hash'' 409
                           ''hash_mismatch'')
               else Inr amountSats))"

text \<open>\<open>recordLightningFailure(hash, err); err._paymentLogged = true; throw err\<close>.\<close>

definition log_and_rethrow :: "orch_env \<Rightarrow> string \<Rightarrow> js_error \<Rightarrow> 'a orch" where
  "log_and_rethrow env paymentHashHex err =
     bind_m (recordLightningFailure env paymentHashHex err) (\<lambda>_.
     throw_m (err\<lparr>err_paymentLogged := True\<rparr>))"

definition post_pay_invariants :: "string \<Rightarrow> locked_position \<Rightarrow> pay_result \<Rightarrow> unit js_result" where
  "post_pay_invariants paymentHashHex locked payResult =
     (let paidHash = toLowerCase (case paid_payment_hash payResult of None \<Rightarrow> [] | Some h \<Rightarrow> h)
      in if paidHash \<noteq> [] \<and> paidHash \<noteq> paymentHashHex
         then Inl (new_coded_Error ''Paid invoice hash differs from locked hash'' 502
                     ''lightning_payment_hash_mismatch'')
         else case parseMsat (paid_amount_msat payResult) of
                Inl e \<Rightarrow> Inl e
              | Inr None \<Rightarrow> Inr ()
              | Inr (Some paidMsat) \<Rightarrow>
                  if paidMsat \<noteq> locked_amount locked * MSATS_PER_SAT
                  then Inl (new_coded_Error ''Paid msats differ from locked amount'' 502
                              ''lightning_payment_amount_mismatch'')
                  else Inr ())"

text \<open>The body of the \<open>try\<close> statement of \<open>processEscrowPayment\<close>.\<close>

definition payment_body ::
  "orch_env \<Rightarrow> locked_position \<Rightarrow> string option \<Rightarrow> pay_outcome orch" where
  "payment_body env locked bolt11 =
     (let paymentHashHex = locked_paymentHashHex locked in
      bind_m (findInvoice env paymentHashHex) (\<lambda>invoice.
      let usingExternalInvoice = (invoice = None \<and> truthy bolt11) in
      if invoice = None \<and> \<not> usingExternalInvoice
      then log_and_rethrow env paymentHashHex
             (new_coded_Error ''Invoice not found for payment hash'' 404 ''invoice_not_found'')
      else
      bind_m (lift_m (invoiceAmount_of env paymentHashHex invoice bolt11)) (\<lambda>invoiceAmount.
      if invoiceAmount \<noteq> locked_amount locked
      then throw_m (new_coded_Error ''Locked amount does not match invoice amount'' 409
                      ''amount_mismatch'')
      else
      bind_m (case invoice of
                Some found \<Rightarrow> recordInvoiceDetails env paymentHashHex (inv_status found) invoiceAmount
                              (js_or (inv_bolt11 found) (js_or (inv_payreq found) None))
              | None \<Rightarrow> recordInvoiceDetails env paymentHashHex (Some ''paid'') invoiceAmount
                          bolt11) (\<lambda>_.
      let alreadyPaid = (case invoice of
                           Some found \<Rightarrow> inv_status found = Some ''paid'' \<or> inv_status found = Some ''complete''
                         | None \<Rightarrow> False);
          preimageHex = (case invoice of
                           Some found \<Rightarrow> js_or (inv_payment_preimage found) (js_or (inv_preimage found) None)
                         | None \<Rightarrow> None);
          lightningStatus = (if alreadyPaid then ''already_paid'' else ''paid'') in
      bind_m (if \<not> alreadyPaid
              then (let payTarget = (case invoice of
                                       Some found \<Rightarrow> js_or (inv_bolt11 found) (inv_payreq found)
                                     | None \<Rightarrow> bolt11) in
                    bind_m (catch_m (payInvoice env payTarget)
                              (log_and_rethrow env paymentHashHex)) (\<lambda>payResult.
                    bind_m (catch_m (lift_m (post_pay_invariants paymentHashHex locked payResult))
                              (log_and_rethrow env paymentHashHex)) (\<lambda>_.
                    return_m (js_or (paid_payment_preimage payResult)
                                (js_or (paid_preimage payResult) preimageHex)))))
              else return_m preimageHex) (\<lambda>preimageHex.
      bind_m (if \<not> truthy preimageHex
              then catch_m (fetchPayPreimage env paymentHashHex)
                     (log_and_rethrow env paymentHashHex)
              else return_m preimageHex) (\<lambda>preimageHex.
      case (if truthy preimageHex then preimageHex else None) of
        None \<Rightarrow>
          log_and_rethrow env paymentHashHex
            (new_coded_Error ''Unable to retrieve payment preimage from CLN'' 502
               ''missing_preimage'')
      | Some preimage \<Rightarrow>
          (let invoiceStatus =
                 (if alreadyPaid
                  then (case invoice of
                          Some found \<Rightarrow> (case inv_status found of None \<Rightarrow> ''paid'' | Some s \<Rightarrow> s)
                        | None \<Rightarrow> ''paid'')
                  else ''paid'') in
           bind_m (recordLightningSuccess env paymentHashHex invoiceStatus invoiceAmount
                     (Some preimage) alreadyPaid) (\<lambda>_.
           bind_m (requestClaim env paymentHashHex preimage) (\<lambda>claimResult.
           bind_m (modify_m (\<lambda>st. st\<lparr>processedHashes :=
                                       insert paymentHashHex (processedHashes st)\<rparr>)) (\<lambda>_.
           let starknetStatus = (case js_or (claim_status claimResult) (Some ''claimed'') of
                                   None \<Rightarrow> ''claimed'' | Some s \<Rightarrow> s) in
           return_m \<lparr>outcome_status = starknetStatus,
                     outcome_lightning_status = lightningStatus,
                     outcome_payment_preimage = Some preimage,
                     outcome_starknet_status = starknetStatus,
                     outcome_tx_hash = js_or (claim_tx_hash claimResult) None\<rparr>))))))))))"

definition already_claimed_outcome :: pay_outcome where
  "already_claimed_outcome =
     \<lparr>outcome_status = ''already_claimed'', outcome_lightning_status = ''skipped'',
      outcome_payment_preimage = None, outcome_starknet_status = ''skipped'',
      outcome_tx_hash = None\<rparr>"

definition payment_inflight_error :: js_error where
  "payment_inflight_error =
     new_coded_Error ''Payment processing already in progress for this hash'' 409
       ''payment_inflight''"

definition processEscrowPayment ::
  "orch_env \<Rightarrow> locked_position \<Rightarrow> string option \<Rightarrow> pay_outcome orch" where
  "processEscrowPayment env locked bolt11 st =
     (let paymentHashHex = locked_paymentHashHex locked in
      if paymentHashHex \<in> processedHashes st
      then bind_m (markPaymentAlreadyClaimed env paymentHashHex)
             (\<lambda>_. return_m already_claimed_outcome) st
      else if paymentHashHex \<in> inflightHashes st
      then throw_m payment_inflight_error st
      else
        bind_m (modify_m (\<lambda>st. st\<lparr>inflightHashes :=
                                    insert paymentHashHex (inflightHashes st)\<rparr>)) (\<lambda>_.
        bind_m (markPaymentInflight env paymentHashHex) (\<lambda>_.
        finally_m
          (catch_m (payment_body env locked bolt11)
             (\<lambda>err. if \<not> err_paymentLogged err
                    then log_and_rethrow env paymentHashHex err
                    else throw_m err))
          (\<lambda>st. st\<lparr>inflightHashes := inflightHashes st - {paymentHashHex}\<rparr>))) st)"

definition processPaymentRequest ::
  "orch_env \<Rightarrow> string \<Rightarrow> string option \<Rightarrow> pay_outcome orch" where
  "processPaymentRequest env paymentHashHex bolt11 =
     bind_m (loadEscrowFromStorage env paymentHashHex) (\<lambda>locked.
     bind_m (recordPaymentRequest env paymentHashHex locked bolt11) (\<lambda>_.
     catch_m (processEscrowPayment env locked bolt11)
       (\<lambda>err. if \<not> err_paymentLogged err
              then bind_m (recordPaymentError env paymentHashHex err) (\<lambda>_. throw_m err)
              else throw_m err)))"

subsection \<open>The worked scenario of a payment\<close>

definition scenario_payment_hash :: string where
  "scenario_payment_hash = ''00112233445566778899aabbccddeeff00112233445566778899aabbccddeeff''"

definition scenario_position :: "EscrowPhase \<Rightarrow> EscrowPosition" where
  "scenario_position p =
     \<lparr>phase = p, user = 0x505, amount = \<lparr>low = 5000, high = 0\<rparr>, expires_at = 4600,
      locked_at = 1000\<rparr>"

text \<open>The collaborators of the scenario: the phase the chain reports, the amount in msat
  of the decoded BOLT11 invoice, and the store update that fails, if any.\<close>

definition scenario_orch_env :: "EscrowPhase \<Rightarrow> string \<Rightarrow> nat option \<Rightarrow> orch_env" where
  "scenario_orch_env p msat faulty =
     \<lparr>chain_get_escrow = (\<lambda>_. Inr (scenario_position p)),
      cln_listinvoices = (\<lambda>_. Inr []),
      cln_listpays = (\<lambda>_. Inr []),
      cln_pay = (\<lambda>_. Inr \<lparr>paid_payment_hash = Some scenario_payment_hash,
                            paid_amount_msat = JString ''5000000msat'',
                            paid_payment_preimage = Some ''c0ffee'', paid_preimage = None\<rparr>),
      operator_requestClaim =
        (\<lambda>_ _. Inr \<lparr>claim_status = Some ''claimed'', claim_tx_hash = Some ''0xfeed''\<rparr>),
      lightBolt11_decode =
        (\<lambda>_. Inr \<lparr>decoded_payment_hash = Some scenario_payment_hash,
                    decoded_amount_section = Some (JString msat),
                    decoded_amount_fields = []\<rparr>),
      BigInt_of_String = (\<lambda>_. None),
      store_fault = (\<lambda>n. faulty = Some n)\<rparr>"

definition fresh_orch_state :: orch_state where
  "fresh_orch_state =
     \<lparr>inflightHashes = {}, processedHashes = {}, payments = Map.empty, store_ops = 0,
      external_calls = []\<rparr>"

text \<open>The state after a request whose second store update fails, and the state after
  a request that ends in \<open>claimed\<close>.\<close>

definition stuck_state :: orch_state where
  "stuck_state = snd (processPaymentRequest (scenario_orch_env Locked ''5000000'' (Some 1))
                        scenario_payment_hash (Some ''lnbc1'') fresh_orch_state)"

definition claimed_state :: orch_state where
  "claimed_state = snd (processPaymentRequest (scenario_orch_env Locked ''5000000'' None)
                          scenario_payment_hash (Some ''lnbc1'') fresh_orch_state)"

section \<open>Properties of the escrow vault\<close>

subsection \<open>Limb arithmetic\<close>

lemma limb_less_iff:
  fixes M :: nat
  assumes "la < M" and "ll < M"
  shows "(hl * M + ll < ha * M + la) = (hl < ha \<or> (hl = ha \<and> ll < la))"
proof (cases "hl < ha")
  case True
  then have "Suc hl \<le> ha" by simp
  then have "Suc hl * M \<le> ha * M" by (rule mult_le_mono1)
  moreover have "hl * M + ll < Suc hl * M" using assms by simp
  ultimately show ?thesis using True by linarith
next
  case False
  show ?thesis
  proof (cases "hl = ha")
    case True
    then show ?thesis by simp
  next
    case ne: False
    with False have "Suc ha \<le> hl" by simp
    then have "Suc ha * M \<le> hl * M" by (rule mult_le_mono1)
    moreover have "ha * M + la < Suc ha * M" using assms by simp
    ultimately show ?thesis using False ne by linarith
  qed
qed

lemma shift_add_bound:
  fixes acc :: nat
  assumes "acc < 2 ^ k" and "w < 2 ^ 32"
  shows "acc * 2 ^ 32 + w < 2 ^ (k + 32)"
proof -
  have "acc * 2 ^ 32 + w < Suc acc * 2 ^ 32" using assms(2) by simp
  also have "\<dots> \<le> 2 ^ k * 2 ^ 32" using assms(1) by (intro mult_le_mono1) simp
  finally show ?thesis by (simp add: power_add)
qed

lemma felt_prime_large: "(2::nat) ^ 128 < felt_prime"
  by (simp add: felt_prime_def)

lemma felt_shift_add_exact:
  assumes "acc < 2 ^ k" and "k \<le> 96"
  shows "felt_shift_add acc w = acc * 2 ^ 32 + unat w \<and> felt_shift_add acc w < 2 ^ (k + 32)"
proof -
  have w: "unat w < 2 ^ 32" using unsigned_less [of w] by simp
  have b: "acc * 2 ^ 32 + unat w < 2 ^ (k + 32)" using assms(1) w by (rule shift_add_bound)
  have "(2::nat) ^ (k + 32) \<le> 2 ^ 128" using assms(2) by (intro power_increasing) simp_all
  with b felt_prime_large have "acc * 2 ^ 32 + unat w < felt_prime" by linarith
  then show ?thesis using b by (simp add: felt_shift_add_def WORD_BASE_def)
qed

lemma words_to_u128_value:
  "\<exists>v. words_to_u128 w0 w1 w2 w3 = Inr v \<and>
       unat v = unat w0 * 2 ^ 96 + unat w1 * 2 ^ 64 + unat w2 * 2 ^ 32 + unat w3"
proof -
  define a1 where "a1 = felt_shift_add 0 w0"
  define a2 where "a2 = felt_shift_add a1 w1"
  define a3 where "a3 = felt_shift_add a2 w2"
  define a4 where "a4 = felt_shift_add a3 w3"
  have s1: "a1 = unat w0 \<and> a1 < 2 ^ 32"
    using felt_shift_add_exact [of 0 0 w0] by (simp add: a1_def)
  have s2: "a2 = a1 * 2 ^ 32 + unat w1 \<and> a2 < 2 ^ 64"
    using felt_shift_add_exact [of a1 32 w1] s1 by (simp add: a2_def)
  have s3: "a3 = a2 * 2 ^ 32 + unat w2 \<and> a3 < 2 ^ 96"
    using felt_shift_add_exact [of a2 64 w2] s2 by (simp add: a3_def)
  have s4: "a4 = a3 * 2 ^ 32 + unat w3 \<and> a4 < 2 ^ 128"
    using felt_shift_add_exact [of a3 96 w3] s3 by (simp add: a4_def)
  have r: "words_to_u128 w0 w1 w2 w3 = Inr (word_of_nat a4)"
    using s4 by (simp add: words_to_u128_def Let_def a1_def a2_def a3_def a4_def)
  have lt: "a4 < 2 ^ 128" using s4 by simp
  have "unat (word_of_nat a4 :: u128) = a4"
    using lt by (simp add: unat_of_nat)
  moreover have "a4 = unat w0 * 2 ^ 96 + unat w1 * 2 ^ 64 + unat w2 * 2 ^ 32 + unat w3"
    using s1 s2 s3 s4 by (simp add: algebra_simps)
  ultimately show ?thesis using r by simp
qed

lemma words_to_u256_value:
  "\<exists>v. words_to_u256 ws = Inr v \<and> u256_val v = be_words_val ws"
proof -
  obtain w0 w1 w2 w3 w4 w5 w6 w7 where ws: "ws = (w0, w1, w2, w3, w4, w5, w6, w7)"
    by (cases ws) auto
  obtain hi where hi: "words_to_u128 w0 w1 w2 w3 = Inr hi"
    "unat hi = unat w0 * 2 ^ 96 + unat w1 * 2 ^ 64 + unat w2 * 2 ^ 32 + unat w3"
    using words_to_u128_value by blast
  obtain lo where lo: "words_to_u128 w4 w5 w6 w7 = Inr lo"
    "unat lo = unat w4 * 2 ^ 96 + unat w5 * 2 ^ 64 + unat w6 * 2 ^ 32 + unat w7"
    using words_to_u128_value by blast
  have "words_to_u256 ws = Inr \<lparr>low = lo, high = hi\<rparr>"
    by (simp add: ws words_to_u256_def and_then_def hi(1) lo(1))
  moreover have "u256_val \<lparr>low = lo, high = hi\<rparr> = be_words_val ws"
    by (simp add: ws u256_val_def be_words_val_def hi(2) lo(2) algebra_simps)
  ultimately show ?thesis by blast
qed

lemma ensure_amount_within_limit_iff:
  "ensure_amount_within_limit a l = (if u256_val a > u256_val l then Inl LIMIT_EXCEEDED else Inr ())"
proof -
  have la: "unat (low a) < 2 ^ 128" using unsigned_less [of "low a"] by simp
  have ll: "unat (low l) < 2 ^ 128" using unsigned_less [of "low l"] by simp
  have "(u256_val l < u256_val a) =
        (unat (high l) < unat (high a) \<or> (unat (high l) = unat (high a) \<and> unat (low l) < unat (low a)))"
    unfolding u256_val_def using la ll by (rule limb_less_iff)
  then show ?thesis
    by (auto simp: ensure_amount_within_limit_def word_less_nat_alt word_unat_eq_iff)
qed

lemma u256_val_zero_iff: "u256_val a = 0 \<longleftrightarrow> low a = 0 \<and> high a = 0"
  by (auto simp: u256_val_def unat_0_iff)

subsection \<open>When an entrypoint succeeds\<close>
lemma and_then_Inr_iff: "(and_then r k = Inr v) = (\<exists>x. r = Inr x \<and> k x = Inr v)"
  by (cases r) (simp_all add: and_then_def)

lemma cairo_assert_Inr_iff: "(cairo_assert c e = Inr u) = c"
  by (simp add: cairo_assert_def)

lemma assert_token_Inr_iff: "(assert_token env c e = Inr u) = (token env c = Returns True)"
  by (auto simp: assert_token_def cairo_assert_def split: call_result.splits)

lemma u64_add_Inr_iff: "(u64_add a b = Inr c) = (unat a + unat b < 2 ^ 64 \<and> c = a + b)"
  by (auto simp: u64_add_def)

lemma lock_success_iff:
  "(lock_for_ln_payment env self usr amt hash = Inr (self', calls)) =
     (usr \<noteq> 0 \<and> caller_address env = usr
      \<and> unat (block_timestamp env) + unat (expiry_window self) < 2 ^ 64
      \<and> 0 < u256_val amt \<and> u256_val amt \<le> u256_val (payment_limit self)
      \<and> phase (hashlocks self hash) = NonePhase
      \<and> token env (TransferFrom (asset self) usr (contract_address env) amt) = Returns True
      \<and> self' = self\<lparr>hashlocks := (hashlocks self)(hash :=
            \<lparr>phase = Locked, user = usr, amount = amt,
             expires_at = block_timestamp env + expiry_window self,
             locked_at = block_timestamp env\<rparr>)\<rparr>
      \<and> calls = [TransferFrom (asset self) usr (contract_address env) amt])"
proof -
  have nz: "(assert_non_zero_amount amt = Inr ()) = (0 < u256_val amt)"
    using u256_val_zero_iff [of amt] by (auto simp: assert_non_zero_amount_def)
  have lim: "(ensure_amount_within_limit amt (payment_limit self) = Inr ())
               = (u256_val amt \<le> u256_val (payment_limit self))"
    by (simp add: ensure_amount_within_limit_iff)
  show ?thesis
    unfolding lock_for_ln_payment_def Let_def
    by (auto simp: and_then_Inr_iff cairo_assert_Inr_iff assert_token_Inr_iff u64_add_Inr_iff
          ensure_non_zero_def require_caller_def nz lim)
qed

lemma claim_success_iff:
  "(claim env self hash preimage = Inr (self', calls)) =
     (caller_address env = protocol_operator self
      \<and> phase (hashlocks self hash) = Locked
      \<and> sha256_digest env preimage = Inr hash
      \<and> token env (Transfer (asset self) (protocol_treasury self) (amount (hashlocks self hash)))
            = Returns True
      \<and> self' = self\<lparr>hashlocks := (hashlocks self)(hash := (hashlocks self hash)\<lparr>phase := Claimed\<rparr>)\<rparr>
      \<and> calls = [Transfer (asset self) (protocol_treasury self) (amount (hashlocks self hash))])"
  unfolding claim_def Let_def
  by (auto simp: and_then_Inr_iff cairo_assert_Inr_iff assert_token_Inr_iff require_caller_def)

lemma refund_success_iff:
  "(refund env self hash = Inr (self', calls)) =
     (phase (hashlocks self hash) = Locked
      \<and> expires_at (hashlocks self hash) \<le> block_timestamp env
      \<and> token env (Transfer (asset self) (user (hashlocks self hash)) (amount (hashlocks self hash)))
            = Returns True
      \<and> self' = self\<lparr>hashlocks := (hashlocks self)(hash := (hashlocks self hash)\<lparr>phase := Refunded\<rparr>)\<rparr>
      \<and> calls = [Transfer (asset self) (user (hashlocks self hash)) (amount (hashlocks self hash))])"
  unfolding refund_def Let_def
  by (auto simp: and_then_Inr_iff cairo_assert_Inr_iff assert_token_Inr_iff)

lemma operator_refund_success_iff:
  "(operator_refund env self hash = Inr (self', calls)) =
     (caller_address env = protocol_operator self
      \<and> phase (hashlocks self hash) = Locked
      \<and> token env (Transfer (asset self) (user (hashlocks self hash)) (amount (hashlocks self hash)))
            = Returns True
      \<and> self' = self\<lparr>hashlocks := (hashlocks self)(hash := (hashlocks self hash)\<lparr>phase := Refunded\<rparr>)\<rparr>
      \<and> calls = [Transfer (asset self) (user (hashlocks self hash)) (amount (hashlocks self hash))])"
  unfolding operator_refund_def Let_def
  by (auto simp: and_then_Inr_iff cairo_assert_Inr_iff assert_token_Inr_iff require_caller_def)

lemma validate_expiry_window_Inr_iff:
  "(validate_expiry_window w = Inr u) = (unat w < 604800)"
  by (simp add: validate_expiry_window_def cairo_assert_Inr_iff MAX_EXPIRY_WINDOW_def
        word_less_nat_alt)

lemma constructor_window:
  "constructor own operator treasury ast window limit = Inr self \<Longrightarrow>
     unat (expiry_window self) < 604800"
  unfolding constructor_def
  by (auto simp: and_then_Inr_iff validate_expiry_window_Inr_iff)

lemma no_calls_Inr_iff: "(no_calls r = Inr (s, cs)) = (r = Inr s \<and> cs = [])"
  by (auto simp: no_calls_def and_then_Inr_iff)

lemma execute_window:
  assumes "execute env self c = Inr (self', calls)" and "unat (expiry_window self) < 604800"
  shows "unat (expiry_window self') < 604800"
proof (cases c)
  case (Update_expiry_window w)
  then show ?thesis using assms
    by (auto simp: no_calls_Inr_iff update_expiry_window_def and_then_Inr_iff
          validate_expiry_window_Inr_iff)
qed (use assms in \<open>auto simp: lock_success_iff claim_success_iff refund_success_iff
      operator_refund_success_iff no_calls_Inr_iff transfer_ownership_def
      update_protocol_operator_def update_protocol_treasury_def update_asset_def
      and_then_Inr_iff\<close>)

lemma reachable_window: "reachable self \<Longrightarrow> unat (expiry_window self) < 604800"
  by (induction rule: reachable.induct) (auto intro: constructor_window execute_window)

subsection \<open>Amount and expiry bounds of a lock\<close>

text \<open>
  Claim C4. In every storage the contract can reach, a successful \<open>lock_for_ln_payment\<close>
  has \<open>0 < amount \<le> payment_limit\<close> on the mathematical values of the 256-bit
  integers, the stored position expires exactly \<open>expiry_window\<close> seconds after it was
  locked (the addition did not wrap), and the window is below 604800 seconds, because
  the constructor and \<open>update_expiry_window\<close> accept no other value.
  \<open>ensure_amount_within_limit\<close>, which compares the high limbs and then the low limbs,
  fails with \<open>LIMIT_EXCEEDED\<close> exactly when the value of the amount exceeds the value
  of the limit.
\<close>
theorem lock_amount_and_expiry_bounds:
  assumes "reachable self"
    and "lock_for_ln_payment env self usr amt hash = Inr (self', calls)"
  shows "0 < u256_val amt \<and> u256_val amt \<le> u256_val (payment_limit self)
     \<and> amount (hashlocks self' hash) = amt
     \<and> unat (expires_at (hashlocks self' hash))
         = unat (locked_at (hashlocks self' hash)) + unat (expiry_window self)
     \<and> unat (expiry_window self) < 604800
     \<and> (\<forall>a l. ensure_amount_within_limit a l
            = (if u256_val l < u256_val a then Inl LIMIT_EXCEEDED else Inr ()))"
proof -
  have w: "unat (expiry_window self) < 604800" using assms(1) by (rule reachable_window)
  have "unat (block_timestamp env + expiry_window self)
          = unat (block_timestamp env) + unat (expiry_window self)"
    if "unat (block_timestamp env) + unat (expiry_window self) < 2 ^ 64"
    using that by (simp add: unat_word_ariths)
  then show ?thesis
    using assms(2) w by (auto simp: lock_success_iff ensure_amount_within_limit_iff)
qed

lemma scenario_reachable: "reachable scenario_storage"
proof -
  have "constructor 0x101 0x202 0x303 0x404 3600 \<lparr>low = 10000, high = 0\<rparr> = Inr scenario_storage"
    by (simp add: constructor_def and_then_def ensure_non_zero_def cairo_assert_def
          validate_expiry_window_def MAX_EXPIRY_WINDOW_def ensure_non_zero_limit_def
          scenario_storage_def)
  then show ?thesis by (rule reachable.deployed)
qed

lemma scenario_lock:
  "lock_for_ln_payment (scenario_env 0x505 1000 True) scenario_storage 0x505
      \<lparr>low = 5000, high = 0\<rparr> scenario_hash
   = Inr (scenario_locked,
          [TransferFrom 0x404 0x505 0x606 \<lparr>low = 5000, high = 0\<rparr>])"
  by (simp add: lock_success_iff scenario_env_def scenario_storage_def scenario_locked_def
        u256_val_def EscrowPosition_default_def)

theorem lock_amount_and_expiry_bounds_witness:
  "unat (expires_at (hashlocks scenario_locked scenario_hash)) = 1000 + 3600
   \<and> u256_val \<lparr>low = 5000, high = 0\<rparr> \<le> 10000"
  using lock_amount_and_expiry_bounds [OF scenario_reachable scenario_lock]
  by (simp add: scenario_locked_def scenario_storage_def u256_val_def)

subsection \<open>The phase sequence of a hash\<close>
lemma execute_position:
  assumes "execute env self c = Inr (self', calls)"
  shows "hashlocks self' h = hashlocks self h
     \<or> (\<exists>u a. c = Lock_for_ln_payment u a h \<and> phase (hashlocks self h) = NonePhase
            \<and> phase (hashlocks self' h) = Locked)
     \<or> (\<exists>pre. c = Claim h pre \<and> phase (hashlocks self h) = Locked
            \<and> hashlocks self' h = (hashlocks self h)\<lparr>phase := Claimed\<rparr>)
     \<or> ((c = Refund h \<or> c = Operator_refund h) \<and> phase (hashlocks self h) = Locked
            \<and> hashlocks self' h = (hashlocks self h)\<lparr>phase := Refunded\<rparr>)"
proof (cases c)
  case (Lock_for_ln_payment u a h')
  then show ?thesis using assms by (auto simp: lock_success_iff)
next
  case (Claim h' pre)
  then show ?thesis using assms by (auto simp: claim_success_iff)
next
  case (Refund h')
  then show ?thesis using assms by (auto simp: refund_success_iff)
next
  case (Operator_refund h')
  then show ?thesis using assms by (auto simp: operator_refund_success_iff)
qed (use assms in \<open>auto simp: no_calls_Inr_iff transfer_ownership_def
      update_protocol_operator_def update_protocol_treasury_def update_asset_def
      update_expiry_window_def and_then_Inr_iff\<close>)

lemma execute_phase_step:
  assumes "execute env self c = Inr (self', calls)"
  shows "phase_step (phase (hashlocks self h)) (phase (hashlocks self' h))"
  using execute_position [OF assms, of h] by (auto simp: phase_step_def)

lemma execute_terminal_frozen:
  assumes "execute env self c = Inr (self', calls)" and "terminal (phase (hashlocks self h))"
  shows "hashlocks self' h = hashlocks self h"
  using execute_position [OF assms(1), of h] assms(2) by (auto simp: terminal_def)

lemma phase_order_step:
  "phase_order p q \<Longrightarrow> phase_step q r \<Longrightarrow> phase_order p r"
  by (cases p; cases q; cases r) (simp_all add: phase_order_def phase_step_def)

lemma evolves_phase_order:
  "evolves self self' \<Longrightarrow> phase_order (phase (hashlocks self h)) (phase (hashlocks self' h))"
proof (induction rule: evolves.induct)
  case (evolves_refl self)
  show ?case by (simp add: phase_order_def)
next
  case (evolves_step self mid env c self' calls)
  from evolves_step.hyps(2) have "phase_step (phase (hashlocks mid h)) (phase (hashlocks self' h))"
    by (rule execute_phase_step)
  with evolves_step.IH show ?case by (rule phase_order_step)
qed

lemma evolves_terminal_frozen:
  "evolves self self' \<Longrightarrow> terminal (phase (hashlocks self h)) \<Longrightarrow>
     hashlocks self' h = hashlocks self h"
proof (induction rule: evolves.induct)
  case (evolves_refl self)
  show ?case by simp
next
  case (evolves_step self mid env c self' calls)
  then have eq: "hashlocks mid h = hashlocks self h" by simp
  with evolves_step.prems have "terminal (phase (hashlocks mid h))" by simp
  with evolves_step.hyps(2) have "hashlocks self' h = hashlocks mid h"
    by (rule execute_terminal_frozen)
  with eq show ?case by simp
qed

lemma lock_reused_fails:
  assumes "phase (hashlocks self hash) \<noteq> NonePhase"
  shows "\<exists>e. lock_for_ln_payment env self usr amt hash = Inl e"
proof (cases "lock_for_ln_payment env self usr amt hash")
  case (Inl e)
  then show ?thesis by blast
next
  case (Inr r)
  then have "phase (hashlocks self hash) = NonePhase"
    by (cases r) (simp add: lock_success_iff)
  with assms show ?thesis by simp
qed

lemma lock_reused_code:
  assumes "phase (hashlocks self hash) \<noteq> NonePhase"
    and "usr \<noteq> 0" and "caller_address env = usr"
    and "unat (block_timestamp env) + unat (expiry_window self) < 2 ^ 64"
    and "0 < u256_val amt" and "u256_val amt \<le> u256_val (payment_limit self)"
  shows "lock_for_ln_payment env self usr amt hash = Inl HASH_REUSED"
proof -
  have nz: "assert_non_zero_amount amt = Inr ()"
    using assms(5) u256_val_zero_iff [of amt] by (auto simp: assert_non_zero_amount_def)
  have lim: "ensure_amount_within_limit amt (payment_limit self) = Inr ()"
    using assms(6) by (simp add: ensure_amount_within_limit_iff)
  show ?thesis
    using assms(1-4)
    by (simp add: lock_for_ln_payment_def and_then_def ensure_non_zero_def require_caller_def
          cairo_assert_def u64_add_def nz lim)
qed

lemma lock_reused_first_failing_check:
  assumes "phase (hashlocks self hash) \<noteq> NonePhase"
  shows "lock_for_ln_payment env self usr amt hash =
     (if usr = 0 then Inl USER_ZERO
      else if caller_address env \<noteq> usr then Inl NOT_USER
      else if \<not> unat (block_timestamp env) + unat (expiry_window self) < 2 ^ 64
      then Inl U64_ADD_OVERFLOW
      else if u256_val amt = 0 then Inl AMOUNT_ZERO
      else if u256_val (payment_limit self) < u256_val amt then Inl LIMIT_EXCEEDED
      else Inl HASH_REUSED)"
proof -
  have nz: "assert_non_zero_amount amt = (if u256_val amt = 0 then Inl AMOUNT_ZERO else Inr ())"
    using u256_val_zero_iff [of amt] by (auto simp: assert_non_zero_amount_def)
  show ?thesis
    using assms
    by (simp add: lock_for_ln_payment_def and_then_def ensure_non_zero_def require_caller_def
          cairo_assert_def u64_add_def nz ensure_amount_within_limit_iff)
qed

text \<open>
  Claim C1, as the code has it. Over any sequence of successful transactions the phase
  of a hash moves only along \<open>None \<rightarrow> Locked \<rightarrow> (Claimed | Refunded)\<close>: one
  transaction makes at most one step of the diagram, and a position that is Claimed or
  Refunded is never written again. \<open>lock_for_ln_payment\<close> succeeds only from phase
  None; on a hash in any other phase it always fails, and it fails with
  \<open>HASH_REUSED\<close> whenever the call passes the checks that come first (non-zero user
  equal to the caller, no overflow of the expiry time, \<open>0 < amount \<le> payment_limit\<close>),
  and otherwise with the error of the first of these checks that fails.
  \<open>claim\<close>, \<open>refund\<close> and \<open>operator_refund\<close> succeed only from phase Locked.
\<close>
theorem escrow_phase_sequence:
  "(evolves s0 s1 \<longrightarrow>
      phase_order (phase (hashlocks s0 k)) (phase (hashlocks s1 k))
      \<and> (terminal (phase (hashlocks s0 k)) \<longrightarrow> hashlocks s1 k = hashlocks s0 k))
   \<and> (execute env self c = Inr (self', calls) \<longrightarrow>
        phase_step (phase (hashlocks self h)) (phase (hashlocks self' h)))
   \<and> (lock_for_ln_payment lenv lself lusr lamt lh = Inr (lself', lcalls) \<longrightarrow>
        phase (hashlocks lself lh) = NonePhase \<and> phase (hashlocks lself' lh) = Locked)
   \<and> (phase (hashlocks rself rh) \<noteq> NonePhase \<longrightarrow>
        (\<exists>e. lock_for_ln_payment renv rself rusr ramt rh = Inl e)
        \<and> (rusr \<noteq> 0 \<and> caller_address renv = rusr
             \<and> unat (block_timestamp renv) + unat (expiry_window rself) < 2 ^ 64
             \<and> 0 < u256_val ramt \<and> u256_val ramt \<le> u256_val (payment_limit rself)
            \<longrightarrow> lock_for_ln_payment renv rself rusr ramt rh = Inl HASH_REUSED)
        \<and> lock_for_ln_payment renv rself rusr ramt rh =
            (if rusr = 0 then Inl USER_ZERO
             else if caller_address renv \<noteq> rusr then Inl NOT_USER
             else if \<not> unat (block_timestamp renv) + unat (expiry_window rself) < 2 ^ 64
             then Inl U64_ADD_OVERFLOW
             else if u256_val ramt = 0 then Inl AMOUNT_ZERO
             else if u256_val (payment_limit rself) < u256_val ramt then Inl LIMIT_EXCEEDED
             else Inl HASH_REUSED))
   \<and> (claim cenv cself ch preimage = Inr (cself', ccalls) \<longrightarrow>
        phase (hashlocks cself ch) = Locked \<and> phase (hashlocks cself' ch) = Claimed)
   \<and> (refund fenv fself fh = Inr (fself', fcalls)
          \<or> operator_refund fenv fself fh = Inr (fself', fcalls) \<longrightarrow>
        phase (hashlocks fself fh) = Locked \<and> phase (hashlocks fself' fh) = Refunded)"
proof (intro conjI impI)
  show "phase_order (phase (hashlocks s0 k)) (phase (hashlocks s1 k))" if "evolves s0 s1"
    using that by (rule evolves_phase_order)
  show "hashlocks s1 k = hashlocks s0 k"
    if "evolves s0 s1" "terminal (phase (hashlocks s0 k))"
    using that by (rule evolves_terminal_frozen)
  show "phase_step (phase (hashlocks self h)) (phase (hashlocks self' h))"
    if "execute env self c = Inr (self', calls)"
    using that by (rule execute_phase_step)
  show "phase (hashlocks lself lh) = NonePhase" "phase (hashlocks lself' lh) = Locked"
    if "lock_for_ln_payment lenv lself lusr lamt lh = Inr (lself', lcalls)"
    using that by (simp_all add: lock_success_iff)
  show "\<exists>e. lock_for_ln_payment renv rself rusr ramt rh = Inl e"
    if "phase (hashlocks rself rh) \<noteq> NonePhase"
    using that by (rule lock_reused_fails)
  show "lock_for_ln_payment renv rself rusr ramt rh = Inl HASH_REUSED"
    if "phase (hashlocks rself rh) \<noteq> NonePhase"
      "rusr \<noteq> 0 \<and> caller_address renv = rusr
             \<and> unat (block_timestamp renv) + unat (expiry_window rself) < 2 ^ 64
             \<and> 0 < u256_val ramt \<and> u256_val ramt \<le> u256_val (payment_limit rself)"
    using that by (intro lock_reused_code) simp_all
  show "lock_for_ln_payment renv rself rusr ramt rh =
            (if rusr = 0 then Inl USER_ZERO
             else if caller_address renv \<noteq> rusr then Inl NOT_USER
             else if \<not> unat (block_timestamp renv) + unat (expiry_window rself) < 2 ^ 64
             then Inl U64_ADD_OVERFLOW
             else if u256_val ramt = 0 then Inl AMOUNT_ZERO
             else if u256_val (payment_limit rself) < u256_val ramt then Inl LIMIT_EXCEEDED
             else Inl HASH_REUSED)"
    if "phase (hashlocks rself rh) \<noteq> NonePhase"
    using that by (rule lock_reused_first_failing_check)
  show "phase (hashlocks cself ch) = Locked" "phase (hashlocks cself' ch) = Claimed"
    if "claim cenv cself ch preimage = Inr (cself', ccalls)"
    using that by (simp_all add: claim_success_iff)
  show "phase (hashlocks fself fh) = Locked" "phase (hashlocks fself' fh) = Refunded"
    if "refund fenv fself fh = Inr (fself', fcalls)
          \<or> operator_refund fenv fself fh = Inr (fself', fcalls)"
    using that by (auto simp: refund_success_iff operator_refund_success_iff)
qed

subsection \<open>Claiming with the preimage\<close>

text \<open>
  Claim C2. A successful \<open>claim\<close> was called by the protocol operator on a position in
  phase Locked, and the digest of the preimage equals the hash: with \<open>w0 .. w7\<close> the
  eight 32-bit words of SHA-256, the high limb of the hash is the big-endian number
  \<open>w0 w1 w2 w3\<close> and the low limb is \<open>w4 w5 w6 w7\<close>, so the hash is the digest read
  as one big-endian 256-bit integer. The position becomes Claimed, nothing else in it
  changes, and the one token call made transfers the locked amount to the treasury.
\<close>
theorem claim_requires_operator_lock_and_preimage:
  assumes "claim env self hash preimage = Inr (self', calls)"
    and "compute_sha256_byte_array env preimage = (w0, w1, w2, w3, w4, w5, w6, w7)"
  shows "caller_address env = protocol_operator self
     \<and> phase (hashlocks self hash) = Locked
     \<and> sha256_digest env preimage = Inr hash
     \<and> unat (high hash) = be_u128_val w0 w1 w2 w3
     \<and> unat (low hash) = be_u128_val w4 w5 w6 w7
     \<and> u256_val hash = be_words_val (w0, w1, w2, w3, w4, w5, w6, w7)
     \<and> hashlocks self' hash = (hashlocks self hash)\<lparr>phase := Claimed\<rparr>
     \<and> token env (Transfer (asset self) (protocol_treasury self) (amount (hashlocks self hash)))
          = Returns True
     \<and> calls = [Transfer (asset self) (protocol_treasury self) (amount (hashlocks self hash))]"
proof -
  have d: "sha256_digest env preimage = Inr hash"
    using assms(1) by (simp add: claim_success_iff)
  then have w: "words_to_u256 (w0, w1, w2, w3, w4, w5, w6, w7) = Inr hash"
    by (simp add: sha256_digest_def assms(2))
  obtain hi where hi: "words_to_u128 w0 w1 w2 w3 = Inr hi" "unat hi = be_u128_val w0 w1 w2 w3"
    using words_to_u128_value [of w0 w1 w2 w3] by (auto simp: be_u128_val_def)
  obtain lo where lo: "words_to_u128 w4 w5 w6 w7 = Inr lo" "unat lo = be_u128_val w4 w5 w6 w7"
    using words_to_u128_value [of w4 w5 w6 w7] by (auto simp: be_u128_val_def)
  have h: "hash = \<lparr>low = lo, high = hi\<rparr>"
    using w by (simp add: words_to_u256_def and_then_def hi(1) lo(1))
  have v: "u256_val hash = be_words_val (w0, w1, w2, w3, w4, w5, w6, w7)"
    using words_to_u256_value [of "(w0, w1, w2, w3, w4, w5, w6, w7)"] w by auto
  show ?thesis
    using assms(1) d v by (simp add: claim_success_iff h hi(2) lo(2))
qed

lemma scenario_claim:
  "claim (scenario_env 0x202 1500 True) scenario_locked scenario_hash [1, 2, 3]
     = Inr (scenario_locked\<lparr>hashlocks := (hashlocks scenario_locked)(scenario_hash :=
              (hashlocks scenario_locked scenario_hash)\<lparr>phase := Claimed\<rparr>)\<rparr>,
            [Transfer 0x404 0x303 \<lparr>low = 5000, high = 0\<rparr>])"
  by (simp add: claim_success_iff scenario_env_def scenario_locked_def scenario_storage_def
        sha256_digest_def words_to_u256_def words_to_u128_def felt_shift_add_def WORD_BASE_def
        felt_prime_def and_then_def scenario_hash_def)

theorem claim_requires_operator_lock_and_preimage_witness:
  "unat (high scenario_hash) = be_u128_val 0 0 0 9 \<and> unat (low scenario_hash) = be_u128_val 0 0 0 7
   \<and> caller_address (scenario_env 0x202 1500 True) = protocol_operator scenario_locked"
proof -
  have s: "compute_sha256_byte_array (scenario_env 0x202 1500 True) [1, 2, 3]
             = (0, 0, 0, 9, 0, 0, 0, 7)"
    by (simp add: scenario_env_def)
  show ?thesis
    using claim_requires_operator_lock_and_preimage [OF scenario_claim s] by simp
qed

subsection \<open>The worked scenario\<close>
lemma scenario_locked_position:
  "hashlocks scenario_locked scenario_hash =
     \<lparr>phase = Locked, user = 0x505, amount = \<lparr>low = 5000, high = 0\<rparr>, expires_at = 4600,
      locked_at = 1000\<rparr>"
  by (simp add: scenario_locked_def)

lemma scenario_locked_config:
  "asset scenario_locked = 0x404" "protocol_operator scenario_locked = 0x202"
  "protocol_treasury scenario_locked = 0x303" "expiry_window scenario_locked = 3600"
  "payment_limit scenario_locked = \<lparr>low = 10000, high = 0\<rparr>"
  by (simp_all add: scenario_locked_def scenario_storage_def)

lemma scenario_env_simps:
  "caller_address (scenario_env who t ok) = who"
  "block_timestamp (scenario_env who t ok) = t"
  "contract_address (scenario_env who t ok) = 0x606"
  "token (scenario_env who t ok) c = Returns ok"
  "compute_sha256_byte_array (scenario_env who t ok) p = (0, 0, 0, 9, 0, 0, 0, 7)"
  by (simp_all add: scenario_env_def)

lemma scenario_refund:
  "refund (scenario_env 0x999 8601 True) scenario_locked scenario_hash
     = Inr (scenario_refunded, [Transfer 0x404 0x505 \<lparr>low = 5000, high = 0\<rparr>])"
  by (simp add: refund_success_iff scenario_env_simps scenario_locked_position
        scenario_locked_config scenario_refunded_def)

text \<open>
  A second lock on a hash that is already Locked does not fail with \<open>HASH_REUSED\<close>
  for every amount and user: with amount zero the call fails with \<open>AMOUNT_ZERO\<close>, and
  with a user other than the caller it fails with \<open>NOT_USER\<close>, since these checks
  come before the read of the stored position.
\<close>
theorem second_lock_zero_amount_counterexample:
  "phase (hashlocks scenario_locked scenario_hash) = Locked
   \<and> lock_for_ln_payment (scenario_env 0x505 2000 True) scenario_locked 0x505
        \<lparr>low = 0, high = 0\<rparr> scenario_hash = Inl AMOUNT_ZERO
   \<and> lock_for_ln_payment (scenario_env 0x505 2000 True) scenario_locked 0x707
        \<lparr>low = 5000, high = 0\<rparr> scenario_hash = Inl NOT_USER
   \<and> AMOUNT_ZERO \<noteq> HASH_REUSED \<and> NOT_USER \<noteq> HASH_REUSED"
  by (simp add: lock_for_ln_payment_def and_then_def ensure_non_zero_def require_caller_def
        cairo_assert_def u64_add_def assert_non_zero_amount_def ensure_amount_within_limit_def
        scenario_env_simps scenario_locked_position scenario_locked_config)

subsection \<open>Refunds\<close>

text \<open>
  Claim C3, as the code has it. For a position in phase Locked, \<open>refund\<close> succeeds if
  and only if the block timestamp has reached \<open>expires_at\<close> and the token's transfer
  returns true; before expiry it fails with \<open>ESCROW_ACTIVE\<close>, and with
  \<open>TRANSFER_FAIL\<close> when the token returns false; its result does not depend on the
  caller. \<open>operator_refund\<close> succeeds if and only if the caller is the
  protocol operator and the token's transfer returns true; its result does not depend
  on the block timestamp. Either one, when it succeeds, makes the single token call
  that transfers the locked amount to the user stored in the position, and sets the
  phase to Refunded.
\<close>
theorem refund_gates:
  assumes "phase (hashlocks self hash) = Locked"
    and "pay_back = Transfer (asset self) (user (hashlocks self hash)) (amount (hashlocks self hash))"
  shows "((\<exists>r. refund env self hash = Inr r)
            = (expires_at (hashlocks self hash) \<le> block_timestamp env
               \<and> token env pay_back = Returns True))
     \<and> (block_timestamp env < expires_at (hashlocks self hash) \<longrightarrow>
           refund env self hash = Inl ESCROW_ACTIVE)
     \<and> (\<forall>who. token (env\<lparr>caller_address := who\<rparr>) = token env
           \<and> refund (env\<lparr>caller_address := who\<rparr>) self hash = refund env self hash)
     \<and> ((\<exists>r. operator_refund env self hash = Inr r)
            = (caller_address env = protocol_operator self \<and> token env pay_back = Returns True))
     \<and> (\<forall>t. operator_refund (env\<lparr>block_timestamp := t\<rparr>) self hash = operator_refund env self hash)
     \<and> (\<forall>self' calls.
           refund env self hash = Inr (self', calls) \<or> operator_refund env self hash = Inr (self', calls)
           \<longrightarrow> calls = [pay_back]
               \<and> hashlocks self' hash = (hashlocks self hash)\<lparr>phase := Refunded\<rparr>)
     \<and> refund env self hash =
          (if block_timestamp env < expires_at (hashlocks self hash) then Inl ESCROW_ACTIVE
           else case token env pay_back of
                  Panics \<Rightarrow> Inl CALLEE_PANIC
                | Returns ok \<Rightarrow>
                    if ok
                    then Inr (self\<lparr>hashlocks := (hashlocks self)(hash :=
                                 (hashlocks self hash)\<lparr>phase := Refunded\<rparr>)\<rparr>, [pay_back])
                    else Inl TRANSFER_FAIL)
     \<and> operator_refund env self hash =
          (if caller_address env \<noteq> protocol_operator self then Inl NOT_OPERATOR
           else case token env pay_back of
                  Panics \<Rightarrow> Inl CALLEE_PANIC
                | Returns ok \<Rightarrow>
                    if ok
                    then Inr (self\<lparr>hashlocks := (hashlocks self)(hash :=
                                 (hashlocks self hash)\<lparr>phase := Refunded\<rparr>)\<rparr>, [pay_back])
                    else Inl TRANSFER_FAIL)"
proof (intro conjI allI impI)
  show "refund env self hash =
          (if block_timestamp env < expires_at (hashlocks self hash) then Inl ESCROW_ACTIVE
           else case token env pay_back of
                  Panics \<Rightarrow> Inl CALLEE_PANIC
                | Returns ok \<Rightarrow>
                    if ok
                    then Inr (self\<lparr>hashlocks := (hashlocks self)(hash :=
                                 (hashlocks self hash)\<lparr>phase := Refunded\<rparr>)\<rparr>, [pay_back])
                    else Inl TRANSFER_FAIL)"
    using assms
    by (simp add: refund_def and_then_def cairo_assert_def assert_token_def Let_def not_less
          split: call_result.splits)
  show "operator_refund env self hash =
          (if caller_address env \<noteq> protocol_operator self then Inl NOT_OPERATOR
           else case token env pay_back of
                  Panics \<Rightarrow> Inl CALLEE_PANIC
                | Returns ok \<Rightarrow>
                    if ok
                    then Inr (self\<lparr>hashlocks := (hashlocks self)(hash :=
                                 (hashlocks self hash)\<lparr>phase := Refunded\<rparr>)\<rparr>, [pay_back])
                    else Inl TRANSFER_FAIL)"
    using assms
    by (simp add: operator_refund_def and_then_def cairo_assert_def assert_token_def Let_def
          require_caller_def split: call_result.splits)
  show "(\<exists>r. refund env self hash = Inr r)
            = (expires_at (hashlocks self hash) \<le> block_timestamp env
               \<and> token env pay_back = Returns True)"
    using assms by (auto simp: refund_success_iff)
  show "refund env self hash = Inl ESCROW_ACTIVE"
    if "block_timestamp env < expires_at (hashlocks self hash)"
  proof -
    from that have "\<not> expires_at (hashlocks self hash) \<le> block_timestamp env"
      by (simp add: not_le)
    then show ?thesis
      using assms(1) by (simp add: refund_def and_then_def cairo_assert_def Let_def)
  qed
  show "token (env\<lparr>caller_address := who\<rparr>) = token env" for who by simp
  show "refund (env\<lparr>caller_address := who\<rparr>) self hash = refund env self hash" for who
    by (simp add: refund_def assert_token_def)
  show "(\<exists>r. operator_refund env self hash = Inr r)
            = (caller_address env = protocol_operator self \<and> token env pay_back = Returns True)"
    using assms by (auto simp: operator_refund_success_iff)
  show "operator_refund (env\<lparr>block_timestamp := t\<rparr>) self hash = operator_refund env self hash" for t
    by (simp add: operator_refund_def assert_token_def require_caller_def)
  show "calls = [pay_back]" "hashlocks self' hash = (hashlocks self hash)\<lparr>phase := Refunded\<rparr>"
    if "refund env self hash = Inr (self', calls) \<or> operator_refund env self hash = Inr (self', calls)"
    for self' calls
    using that assms by (auto simp: refund_success_iff operator_refund_success_iff)
qed

text \<open>
  After expiry, and for the operator, a refund of a Locked position still fails when
  the token's transfer returns false.
\<close>
theorem refund_after_expiry_counterexample:
  "phase (hashlocks scenario_locked scenario_hash) = Locked
   \<and> expires_at (hashlocks scenario_locked scenario_hash) \<le> block_timestamp (scenario_env 0x999 8601 False)
   \<and> refund (scenario_env 0x999 8601 False) scenario_locked scenario_hash = Inl TRANSFER_FAIL
   \<and> caller_address (scenario_env 0x202 8601 False) = protocol_operator scenario_locked
   \<and> operator_refund (scenario_env 0x202 8601 False) scenario_locked scenario_hash = Inl TRANSFER_FAIL"
  by (simp add: refund_def operator_refund_def and_then_def cairo_assert_def assert_token_def
        require_caller_def scenario_env_simps scenario_locked_position scenario_locked_config)

theorem refund_gates_witness:
  "phase (hashlocks scenario_locked scenario_hash) = Locked
   \<and> (\<exists>r. refund (scenario_env 0x999 8601 True) scenario_locked scenario_hash = Inr r)
   \<and> hashlocks scenario_refunded scenario_hash
        = (hashlocks scenario_locked scenario_hash)\<lparr>phase := Refunded\<rparr>"
proof -
  have p: "phase (hashlocks scenario_locked scenario_hash) = Locked"
    by (simp add: scenario_locked_position)
  have r: "refund (scenario_env 0x999 8601 True) scenario_locked scenario_hash
             = Inr (scenario_refunded, [Transfer 0x404 0x505 \<lparr>low = 5000, high = 0\<rparr>])"
    by (rule scenario_refund)
  note t = refund_gates [OF p refl, of "scenario_env 0x999 8601 True"]
  from t r have "hashlocks scenario_refunded scenario_hash
      = (hashlocks scenario_locked scenario_hash)\<lparr>phase := Refunded\<rparr>"
    by blast
  with p r show ?thesis by blast
qed

lemma scenario_claim_storage:
  "claim (scenario_env 0x202 1500 True) scenario_locked scenario_hash [1, 2, 3]
     = Inr (scenario_claimed, [Transfer 0x404 0x303 \<lparr>low = 5000, high = 0\<rparr>])"
  using scenario_claim by (simp add: scenario_claimed_def)

lemma scenario_update_window:
  "execute (scenario_env 0x101 9000 True) scenario_claimed (Update_expiry_window 100)
     = Inr (scenario_claimed\<lparr>expiry_window := 100\<rparr>, [])"
  by (simp add: no_calls_def update_expiry_window_def and_then_def validate_expiry_window_def
        cairo_assert_def require_caller_def MAX_EXPIRY_WINDOW_def scenario_env_simps
        scenario_claimed_def scenario_locked_def scenario_storage_def)

theorem escrow_phase_sequence_witness:
  "hashlocks (scenario_claimed\<lparr>expiry_window := 100\<rparr>) scenario_hash
     = hashlocks scenario_claimed scenario_hash
   \<and> phase_step (phase (hashlocks scenario_storage scenario_hash))
        (phase (hashlocks scenario_locked scenario_hash))
   \<and> phase (hashlocks scenario_storage scenario_hash) = NonePhase
   \<and> phase (hashlocks scenario_locked scenario_hash) = Locked
   \<and> lock_for_ln_payment (scenario_env 0x505 2000 True) scenario_locked 0x505
        \<lparr>low = 6000, high = 0\<rparr> scenario_hash = Inl HASH_REUSED
   \<and> phase (hashlocks scenario_claimed scenario_hash) = Claimed
   \<and> phase (hashlocks scenario_refunded scenario_hash) = Refunded"
proof -
  let ?lock = "Lock_for_ln_payment 0x505 \<lparr>low = 5000, high = 0\<rparr> scenario_hash"
  have step: "execute (scenario_env 0x505 1000 True) scenario_storage ?lock
      = Inr (scenario_locked, [TransferFrom 0x404 0x505 0x606 \<lparr>low = 5000, high = 0\<rparr>])"
    using scenario_lock by simp
  have ev: "evolves scenario_claimed (scenario_claimed\<lparr>expiry_window := 100\<rparr>)"
    using evolves_refl scenario_update_window by (rule evolves_step)
  have fin: "terminal (phase (hashlocks scenario_claimed scenario_hash))"
    by (simp add: terminal_def scenario_claimed_def)
  have used: "phase (hashlocks scenario_locked scenario_hash) \<noteq> NonePhase"
    by (simp add: scenario_locked_position)
  have pre: "(0x505::nat) \<noteq> 0 \<and> caller_address (scenario_env 0x505 2000 True) = 0x505
      \<and> unat (block_timestamp (scenario_env 0x505 2000 True))
            + unat (expiry_window scenario_locked) < 2 ^ 64
      \<and> 0 < u256_val \<lparr>low = 6000, high = 0\<rparr>
      \<and> u256_val \<lparr>low = 6000, high = 0\<rparr> \<le> u256_val (payment_limit scenario_locked)"
    by (simp add: scenario_env_simps scenario_locked_config u256_val_def)
  have rf: "refund (scenario_env 0x999 8601 True) scenario_locked scenario_hash
             = Inr (scenario_refunded, [Transfer 0x404 0x505 \<lparr>low = 5000, high = 0\<rparr>])
          \<or> operator_refund (scenario_env 0x999 8601 True) scenario_locked scenario_hash
             = Inr (scenario_refunded, [Transfer 0x404 0x505 \<lparr>low = 5000, high = 0\<rparr>])"
    using scenario_refund by simp
  note t = escrow_phase_sequence [where ?s0.0 = scenario_claimed
        and ?s1.0 = "scenario_claimed\<lparr>expiry_window := 100\<rparr>" and k = scenario_hash
        and env = "scenario_env 0x505 1000 True" and self = scenario_storage and c = ?lock
        and self' = scenario_locked and h = scenario_hash
        and calls = "[TransferFrom 0x404 0x505 0x606 \<lparr>low = 5000, high = 0\<rparr>]"
        and lenv = "scenario_env 0x505 1000 True" and lself = scenario_storage and lusr = "0x505"
        and lamt = "\<lparr>low = 5000, high = 0\<rparr>" and lh = scenario_hash
        and lself' = scenario_locked
        and lcalls = "[TransferFrom 0x404 0x505 0x606 \<lparr>low = 5000, high = 0\<rparr>]"
        and rself = scenario_locked and rh = scenario_hash
        and renv = "scenario_env 0x505 2000 True" and rusr = "0x505"
        and ramt = "\<lparr>low = 6000, high = 0\<rparr>"
        and cenv = "scenario_env 0x202 1500 True" and cself = scenario_locked
        and ch = scenario_hash and preimage = "[1, 2, 3]" and cself' = scenario_claimed
        and ccalls = "[Transfer 0x404 0x303 \<lparr>low = 5000, high = 0\<rparr>]"
        and fenv = "scenario_env 0x999 8601 True" and fself = scenario_locked
        and fh = scenario_hash and fself' = scenario_refunded
        and fcalls = "[Transfer 0x404 0x505 \<lparr>low = 5000, high = 0\<rparr>]"]
  from t ev fin have c1: "hashlocks (scenario_claimed\<lparr>expiry_window := 100\<rparr>) scenario_hash
     = hashlocks scenario_claimed scenario_hash"
    by blast
  from t step have c2: "phase_step (phase (hashlocks scenario_storage scenario_hash))
        (phase (hashlocks scenario_locked scenario_hash))"
    by blast
  from t scenario_lock have c3: "phase (hashlocks scenario_storage scenario_hash) = NonePhase
      \<and> phase (hashlocks scenario_locked scenario_hash) = Locked"
    by blast
  from t used pre have c4: "lock_for_ln_payment (scenario_env 0x505 2000 True) scenario_locked
        0x505 \<lparr>low = 6000, high = 0\<rparr> scenario_hash = Inl HASH_REUSED"
    by blast
  from t scenario_claim_storage have c5: "phase (hashlocks scenario_claimed scenario_hash) = Claimed"
    by blast
  from t rf have c6: "phase (hashlocks scenario_refunded scenario_hash) = Refunded"
    by blast
  from c1 c2 c3 c4 c5 c6 show ?thesis by blast
qed

section \<open>Properties of the off-chain services\<close>

subsection \<open>Parsing of amounts\<close>

lemma concat_digit_runs: "concat (digit_runs s) = filter isDigit s"
proof (induction s rule: digit_runs.induct)
  case 1
  show ?case by simp
next
  case (2 c cs)
  show ?case
  proof (cases "isDigit c")
    case True
    have tw: "filter isDigit (takeWhile isDigit cs) = takeWhile isDigit cs"
      by (rule filter_True) (blast dest: set_takeWhileD)
    have "filter isDigit cs = filter isDigit (takeWhile isDigit cs @ dropWhile isDigit cs)"
      by simp
    also have "\<dots> = takeWhile isDigit cs @ filter isDigit (dropWhile isDigit cs)"
      unfolding filter_append tw by (rule refl)
    finally show ?thesis using True 2 by simp
  next
    case False
    then show ?thesis using 2 by simp
  qed
qed

lemma digit_runs_empty_iff: "digit_runs s = [] \<longleftrightarrow> filter isDigit s = []"
  by (induction s rule: digit_runs.induct) simp_all

lemma isDigit_toLowerCase_char:
  assumes "isDigit c"
  shows "toLowerCase_char c = c"
proof -
  from assms have "c = CHR ''0'' \<or> c = CHR ''1'' \<or> c = CHR ''2'' \<or> c = CHR ''3''
      \<or> c = CHR ''4'' \<or> c = CHR ''5'' \<or> c = CHR ''6'' \<or> c = CHR ''7''
      \<or> c = CHR ''8'' \<or> c = CHR ''9''"
    by (simp add: isDigit_def)
  then show ?thesis
    by (elim disjE) (simp_all add: toLowerCase_char_def)
qed

lemma msat_suffix_not_digit:
  assumes "toLowerCase suf = ''msat''"
  shows "takeWhile isDigit suf = [] \<and> dropWhile isDigit suf = suf"
proof (cases suf)
  case Nil
  with assms show ?thesis by (simp add: toLowerCase_def)
next
  case (Cons c cs)
  with assms have m: "toLowerCase_char c = CHR ''m''" by (simp add: toLowerCase_def)
  have "\<not> isDigit c"
  proof
    assume d: "isDigit c"
    with m have "c = CHR ''m''" by (simp add: isDigit_toLowerCase_char)
    with d show False by (simp add: isDigit_def)
  qed
  with Cons show ?thesis by simp
qed

lemma match_msat_iff:
  "(match_digits_suffix [''msat''] s = Some ds) =
     (ds \<noteq> [] \<and> list_all isDigit ds
      \<and> (s = ds \<or> (\<exists>suf. s = ds @ suf \<and> toLowerCase suf = ''msat'')))"
proof
  assume m: "match_digits_suffix [''msat''] s = Some ds"
  let ?rest = "dropWhile isDigit s"
  from m have ds: "ds = takeWhile isDigit s" and ne: "ds \<noteq> []"
    and r: "?rest = [] \<or> toLowerCase ?rest = ''msat''"
    by (auto simp: match_digits_suffix_def Let_def split: if_splits)
  have s: "s = ds @ ?rest" by (simp add: ds)
  have "list_all isDigit ds" by (auto simp: ds list_all_iff dest: set_takeWhileD)
  moreover have "s = ds \<or> (\<exists>suf. s = ds @ suf \<and> toLowerCase suf = ''msat'')"
    using r s by (metis append_Nil2)
  ultimately show "ds \<noteq> [] \<and> list_all isDigit ds
      \<and> (s = ds \<or> (\<exists>suf. s = ds @ suf \<and> toLowerCase suf = ''msat''))"
    using ne by simp
next
  assume a: "ds \<noteq> [] \<and> list_all isDigit ds
      \<and> (s = ds \<or> (\<exists>suf. s = ds @ suf \<and> toLowerCase suf = ''msat''))"
  then have all: "\<forall>c\<in>set ds. isDigit c" by (simp add: list_all_iff)
  from a consider "s = ds" | suf where "s = ds @ suf" "toLowerCase suf = ''msat''" by blast
  then show "match_digits_suffix [''msat''] s = Some ds"
  proof cases
    case 1
    have tw: "takeWhile isDigit ds = ds" and dw: "dropWhile isDigit ds = []"
      using all by simp_all
    show ?thesis using a 1 by (simp add: match_digits_suffix_def Let_def tw dw)
  next
    case 2
    from 2(2) have "takeWhile isDigit suf = []" "dropWhile isDigit suf = suf"
      using msat_suffix_not_digit by simp_all
    then have "takeWhile isDigit s = ds" "dropWhile isDigit s = suf"
      using all 2(1) by (simp_all add: takeWhile_append2 dropWhile_append2)
    then show ?thesis using a 2(2) by (simp add: match_digits_suffix_def)
  qed
qed

text \<open>
  Claim C9, as the code has it. For a string, \<open>parseMsat\<close> matches
  \<open>^(\d+)(msat)?$\<close> without regard to letter case and returns the integer of the first
  group; when the match fails it returns the missing value, with no fallback. The
  fallback that joins the digits of the string is in \<open>parseNumericValue\<close>, which
  reads the amount of a decoded BOLT11 invoice. A bigint and an integer Number are
  returned as their value; \<open>null\<close> and \<open>undefined\<close> give the missing value.
\<close>

theorem parseMsat_string_integer_missing:
  "parseMsat (JString s) = Inr (map_option BigInt_of_digits (match_digits_suffix [''msat''] s))
   \<and> ((match_digits_suffix [''msat''] s = Some ds) =
        (ds \<noteq> [] \<and> list_all isDigit ds
         \<and> (s = ds \<or> (\<exists>suf. s = ds @ suf \<and> toLowerCase suf = ''msat''))))
   \<and> parseNumericValue (JString s) =
        (case match_digits_suffix [''msat''] s of
           Some m1 \<Rightarrow> Some (BigInt_of_digits m1)
         | None \<Rightarrow> if filter isDigit s = [] then None
                   else Some (BigInt_of_digits (filter isDigit s)))
   \<and> parseMsat (JBigInt i) = Inr (Some i)
   \<and> parseMsat (JNumber (Finite (of_int i))) = Inr (Some i)
   \<and> parseMsat JNull = Inr None
   \<and> parseMsat JUndefined = Inr None"
proof -
  have a: "parseMsat (JString s)
             = Inr (map_option BigInt_of_digits (match_digits_suffix [''msat''] s))"
    by (simp split: option.split)
  have b: "parseNumericValue (JString s) =
        (case match_digits_suffix [''msat''] s of
           Some m1 \<Rightarrow> Some (BigInt_of_digits m1)
         | None \<Rightarrow> if filter isDigit s = [] then None
                   else Some (BigInt_of_digits (filter isDigit s)))"
    by (simp add: Let_def concat_digit_runs digit_runs_empty_iff split: option.split)
  have c: "parseMsat (JNumber (Finite (of_int i))) = Inr (Some i)"
    by (simp add: BigInt_of_number_def)
  show ?thesis
    by (intro conjI) (rule a, rule match_msat_iff, rule b, simp, rule c, simp_all)
qed

theorem parseMsat_string_integer_missing_witness:
  "parseMsat (JString ''1000mSat'') = Inr (Some 1000)
   \<and> parseNumericValue (JString ''1000mSat'') = Some 1000
   \<and> match_digits_suffix [''msat''] ''1000mSat'' = Some ''1000''"
proof -
  have m: "match_digits_suffix [''msat''] ''1000mSat'' = Some ''1000''"
    by (simp add: match_digits_suffix_def isDigit_def toLowerCase_def toLowerCase_char_def)
  have v: "BigInt_of_digits ''1000'' = 1000"
    by (simp add: BigInt_of_digits_def digit_value_def)
  show ?thesis
    using parseMsat_string_integer_missing [of "''1000mSat''" "''1000''" 0] m v by simp
qed

text \<open>
  A string that holds digits but does not match the pattern: \<open>parseMsat\<close> gives the
  missing value, where the digits-only fallback (that of \<open>parseNumericValue\<close>) gives 12.
\<close>

theorem parseMsat_no_digit_fallback_counterexample:
  "parseMsat (JString ''12 msat'') = Inr None
   \<and> filter isDigit ''12 msat'' = ''12''
   \<and> parseNumericValue (JString ''12 msat'') = Some 12"
  by (simp add: match_digits_suffix_def isDigit_def toLowerCase_def toLowerCase_char_def
        BigInt_of_digits_def digit_value_def)

subsection \<open>The nonce lane\<close>

lemma startsWith_iff: "startsWith s p = (\<exists>after. s = p @ after)"
  by (induction s p rule: startsWith.induct) auto

lemma str_includes_iff: "str_includes s needle = occurs_in needle s"
proof (induction s)
  case Nil
  show ?case by (auto simp: occurs_in_def)
next
  case (Cons c cs)
  show ?case
  proof
    assume "str_includes (c # cs) needle"
    then consider "startsWith (c # cs) needle" | "str_includes cs needle" by auto
    then show "occurs_in needle (c # cs)"
    proof cases
      case 1
      then obtain after where "c # cs = needle @ after" by (auto simp: startsWith_iff)
      then have "c # cs = [] @ needle @ after" by simp
      then show ?thesis unfolding occurs_in_def by blast
    next
      case 2
      then obtain before after where "cs = before @ needle @ after"
        using Cons.IH by (auto simp: occurs_in_def)
      then have "c # cs = (c # before) @ needle @ after" by simp
      then show ?thesis unfolding occurs_in_def by blast
    qed
  next
    assume "occurs_in needle (c # cs)"
    then obtain before after where e: "c # cs = before @ needle @ after"
      by (auto simp: occurs_in_def)
    show "str_includes (c # cs) needle"
    proof (cases before)
      case Nil
      with e have "startsWith (c # cs) needle" unfolding startsWith_iff by auto
      then show ?thesis by simp
    next
      case (Cons b bs)
      with e have "cs = bs @ needle @ after" by simp
      then have "occurs_in needle cs" unfolding occurs_in_def by blast
      then show ?thesis using Cons.IH by simp
    qed
  qed
qed

lemma isNonceSyncError_iff: "isNonceSyncError err = nonce_desync_message (err_message err)"
  by (auto simp: isNonceSyncError_def nonce_desync_message_def Let_def str_includes_iff)

text \<open>
  Claim C6. With the operator account initialised and \<open>n\<close> the current counter value
  (read from the chain when the counter is unset), \<open>withNonce\<close> calls the submission
  with nonce \<open>n\<close> in a state whose counter is already \<open>n + 1\<close>, and returns the
  submission's outcome. When the submission throws an error whose message, in lower
  case, contains \<open>nonce\<close> and one of \<open>low\<close>, \<open>used\<close>, \<open>already\<close>, \<open>invalid\<close>,
  \<open>out of order\<close>, the counter is unset, so that the next call reads the chain's nonce
  again; on any other error the error is rethrown and the counter stays at \<open>n + 1\<close>,
  as it does on success.
\<close>

theorem withNonce_discipline:
  assumes "operatorAccountRef st = Some account"
    and "(case nonceState_next st of None \<Rightarrow> getNonce account | Some k \<Rightarrow> Inr k) = Inr n"
    and "advanced = st\<lparr>nonceState_next := Some (n + 1)\<rparr>"
  shows "fst (withNonce getNonce fn st) = fn advanced account n
     \<and> (\<forall>v. fn advanced account n = Inr v \<longrightarrow> snd (withNonce getNonce fn st) = advanced)
     \<and> (\<forall>err. fn advanced account n = Inl err \<and> nonce_desync_message (err_message err) \<longrightarrow>
           snd (withNonce getNonce fn st) = st\<lparr>nonceState_next := None\<rparr>)
     \<and> (\<forall>err. fn advanced account n = Inl err \<and> \<not> nonce_desync_message (err_message err) \<longrightarrow>
           snd (withNonce getNonce fn st) = advanced)
     \<and> (\<forall>m fn' getNonce'. getNonce' account = Inr m \<longrightarrow>
           fst (withNonce getNonce' fn' (st\<lparr>nonceState_next := None\<rparr>))
             = fn' (st\<lparr>nonceState_next := Some (m + 1)\<rparr>) account m)"
  using assms
  by (auto simp: withNonce_def getOperatorAccount_def Let_def isNonceSyncError_iff
        split: sum.splits option.splits)

lemma scenario_message: "nonce_desync_message ''Invalid transaction nonce''"
proof -
  have "isNonceSyncError (new_Error ''Invalid transaction nonce'')"
    by (simp add: isNonceSyncError_def new_Error_def toLowerCase_def toLowerCase_char_def)
  then show ?thesis by (simp add: isNonceSyncError_iff new_Error_def)
qed

theorem withNonce_discipline_witness:
  "withNonce (\<lambda>_. Inr 9) scenario_submit scenario_lane
     = (Inl (new_Error ''Invalid transaction nonce''), scenario_lane\<lparr>nonceState_next := None\<rparr>)
   \<and> fst (withNonce (\<lambda>_. Inr 9) scenario_submit (scenario_lane\<lparr>nonceState_next := None\<rparr>))
     = Inr ''0xabc''"
proof -
  have a: "operatorAccountRef scenario_lane = Some 0x202" by (simp add: scenario_lane_def)
  have b: "(case nonceState_next scenario_lane of None \<Rightarrow> (\<lambda>_. Inr 9) (0x202::nat)
            | Some k \<Rightarrow> Inr k) = (Inr 5 :: int js_result)"
    by (simp add: scenario_lane_def)
  have c: "scenario_submit (scenario_lane\<lparr>nonceState_next := Some (5 + 1)\<rparr>) 0x202 5
             = Inl (new_Error ''Invalid transaction nonce'')"
    by (simp add: scenario_submit_def)
  have d: "err_message (new_Error ''Invalid transaction nonce'') = ''Invalid transaction nonce''"
    by (simp add: new_Error_def)
  have nm: "nonce_desync_message (err_message (new_Error ''Invalid transaction nonce''))"
    using scenario_message by (simp add: d)
  note w = withNonce_discipline [OF a b refl, of scenario_submit]
  have "fst (withNonce (\<lambda>_. Inr 9) scenario_submit scenario_lane)
      = scenario_submit (scenario_lane\<lparr>nonceState_next := Some (5 + 1)\<rparr>) 0x202 5"
    using w by (rule conjunct1)
  then have f: "fst (withNonce (\<lambda>_. Inr 9) scenario_submit scenario_lane)
      = Inl (new_Error ''Invalid transaction nonce'')"
    using c by (rule trans)
  have s: "snd (withNonce (\<lambda>_. Inr 9) scenario_submit scenario_lane)
      = scenario_lane\<lparr>nonceState_next := None\<rparr>"
    using w c nm by blast
  have reseed: "\<And>m getNonce'. getNonce' (0x202::nat) = Inr m \<Longrightarrow>
      fst (withNonce getNonce' scenario_submit (scenario_lane\<lparr>nonceState_next := None\<rparr>))
      = scenario_submit (scenario_lane\<lparr>nonceState_next := Some (m + 1)\<rparr>) 0x202 m"
    using w by blast
  have r: "fst (withNonce (\<lambda>_. Inr 9) scenario_submit (scenario_lane\<lparr>nonceState_next := None\<rparr>))
      = Inr ''0xabc''"
    using reseed [of "\<lambda>_. Inr 9" 9] by (simp add: scenario_submit_def)
  show ?thesis using f s r by (simp add: prod_eq_iff)
qed

subsection \<open>The credit monitor\<close>

lemma credited_is_absorbing:
  assumes "credit_status (ensureCreditMeta invoice) = Some ''credited''"
  shows "attemptCredit cfg requestTransfer now later invoice
           = (invoice\<lparr>credit := Some (ensureCreditMeta invoice)\<rparr>, [])"
  using assms
  by (simp add: attemptCredit_def attemptCredit_begin_def resetStuckProcessing_def)

lemma ensureCreditMeta_idem:
  "ensureCreditMeta (invoice\<lparr>credit := Some (ensureCreditMeta invoice)\<rparr>) = ensureCreditMeta invoice"
  by (simp add: ensureCreditMeta_def Let_def split: option.splits)

lemma credited_never_transfers_again:
  assumes "credit_status (ensureCreditMeta invoice) = Some ''credited''"
  shows "snd (attemptCredit_ticks cfg requestTransfer ticks invoice) = []
     \<and> credit_status (ensureCreditMeta (fst (attemptCredit_ticks cfg requestTransfer ticks invoice)))
         = Some ''credited''"
  using assms
proof (induction ticks arbitrary: invoice)
  case Nil
  then show ?case by simp
next
  case (Cons t ticks)
  obtain now later where t: "t = (now, later)" by (cases t)
  let ?next = "invoice\<lparr>credit := Some (ensureCreditMeta invoice)\<rparr>"
  have step: "attemptCredit cfg requestTransfer now later invoice = (?next, [])"
    using Cons.prems by (rule credited_is_absorbing)
  have "credit_status (ensureCreditMeta ?next) = Some ''credited''"
    using Cons.prems by (simp add: ensureCreditMeta_idem)
  from Cons.IH [OF this] show ?case
    by (simp add: t step split: prod.splits)
qed

lemma stale_processing_is_reset:
  assumes "credit_status c = Some ''processing''"
    and "now - (case last_attempt_at c of None \<Rightarrow> 0 | Some t \<Rightarrow> t) > STALE_PROCESSING_MS cfg"
  shows "resetStuckProcessing cfg c now
           = c\<lparr>credit_status := Some ''pending'',
                last_error := Some \<lparr>ce_message = ''Recovered from stale processing state'',
                                     ce_code = Some ''stale_processing''\<rparr>\<rparr>
     \<and> attempts (resetStuckProcessing cfg c now) = attempts c"
  using assms by (simp add: resetStuckProcessing_def)

lemma recent_processing_is_kept:
  assumes "credit_status c = Some ''processing''"
    and "now - (case last_attempt_at c of None \<Rightarrow> 0 | Some t \<Rightarrow> t) \<le> STALE_PROCESSING_MS cfg"
  shows "resetStuckProcessing cfg c now = c"
  using assms by (simp add: resetStuckProcessing_def)

lemma scenario_address: "normalizeStarknet (Some ''0x0505'') = Some ''0x0505''"
  by (simp add: normalizeStarknet_def trim_def isWhiteSpace_def toLowerCase_def
        toLowerCase_char_def isLowerHex_def)

lemma scenario_amount: "resolveInvoiceAmountSats (scenario_invoice st attempted) = Some 5000"
  by (simp add: resolveInvoiceAmountSats_def scenario_invoice_def match_digits_suffix_def
        isDigit_def BigInt_of_digits_def digit_value_def)

text \<open>
  Claim C8 at an invoice whose credit is \<open>processing\<close> and was attempted one second
  before, well inside the stale window of five minutes: \<open>attemptCredit\<close> does not
  skip it. \<open>resetStuckProcessing\<close> leaves the entry as it is, no later test looks at
  the status \<open>processing\<close>, and the transfer is requested a second time, the number of
  attempts going from 1 to 2.
\<close>

theorem recent_processing_is_transferred_again:
  "1000000 - 999000 \<le> STALE_PROCESSING_MS default_monitor_config
   \<and> credit_status (ensureCreditMeta (scenario_invoice ''processing'' 999000)) = Some ''processing''
   \<and> attemptCredit_begin default_monitor_config 1000000 (scenario_invoice ''processing'' 999000)
       = (Proceed ''0x0505'' 5000,
          (scenario_invoice ''processing'' 999000)\<lparr>credit := Some
             \<lparr>credit_status = Some ''processing'', attempts = Some 2, last_error = None,
              next_retry_at = None, last_attempt_at = Some 1000000,
              credit_amount_sats = Some 5000, credit_tx_hash = None,
              credit_amount_units = None, credited_at = None\<rparr>\<rparr>)
   \<and> snd (attemptCredit default_monitor_config scenario_transfer 1000000 1000500
            (scenario_invoice ''processing'' 999000)) = [(''0x0505'', 5000)]"
proof -
  have b: "attemptCredit_begin default_monitor_config 1000000 (scenario_invoice ''processing'' 999000)
       = (Proceed ''0x0505'' 5000,
          (scenario_invoice ''processing'' 999000)\<lparr>credit := Some
             \<lparr>credit_status = Some ''processing'', attempts = Some 2, last_error = None,
              next_retry_at = None, last_attempt_at = Some 1000000,
              credit_amount_sats = Some 5000, credit_tx_hash = None,
              credit_amount_units = None, credited_at = None\<rparr>\<rparr>)"
    unfolding attemptCredit_begin_def scenario_amount
    by (simp add: scenario_invoice_def ensureCreditMeta_def resetStuckProcessing_def
          shouldDelayRetry_def default_monitor_config_def scenario_address)
  show ?thesis
    unfolding attemptCredit_def b
    by (simp add: scenario_invoice_def ensureCreditMeta_def default_monitor_config_def
          scenario_transfer_def)
qed

subsection \<open>The payment orchestrator\<close>

lemma mutatePayment_frame:
  "external_calls (snd (mutatePayment env k f ev cd st)) = external_calls st
   \<and> inflightHashes (snd (mutatePayment env k f ev cd st)) = inflightHashes st
   \<and> processedHashes (snd (mutatePayment env k f ev cd st)) = processedHashes st
   \<and> store_ops (snd (mutatePayment env k f ev cd st)) = Suc (store_ops st)"
  by (simp add: mutatePayment_def Let_def)

lemma mutatePayment_ok:
  assumes "\<not> store_fault env (store_ops st)"
  shows "mutatePayment env k f ev cd st =
     (Inr (), st\<lparr>store_ops := Suc (store_ops st),
                 payments := (payments st)(toLowerCase k \<mapsto>
                    pushHistory (f (ensureEntry (payments st) k)) ev cd)\<rparr>)"
  using assms by (simp add: mutatePayment_def Let_def)

lemma mutatePayment_fault:
  assumes "store_fault env (store_ops st)"
  shows "mutatePayment env k f ev cd st = (Inl store_error, st\<lparr>store_ops := Suc (store_ops st)\<rparr>)"
  using assms by (simp add: mutatePayment_def Let_def)

lemma finally_m_state: "snd (finally_m m cleanup st) = cleanup (snd (m st))"
  by (simp add: finally_m_def split: prod.splits)

lemma inflight_rejection_keeps_entry:
  assumes "locked_paymentHashHex locked \<notin> processedHashes st"
    and "locked_paymentHashHex locked \<in> inflightHashes st"
  shows "processEscrowPayment env locked bolt11 st = (Inl payment_inflight_error, st)"
  using assms by (simp add: processEscrowPayment_def throw_m_def)

lemma inflight_removed_after_marking:
  assumes "locked_paymentHashHex locked \<notin> processedHashes st"
    and "locked_paymentHashHex locked \<notin> inflightHashes st"
    and "\<not> store_fault env (store_ops st)"
  shows "locked_paymentHashHex locked
           \<notin> inflightHashes (snd (processEscrowPayment env locked bolt11 st))"
proof -
  let ?h = "locked_paymentHashHex locked"
  let ?st1 = "st\<lparr>inflightHashes := insert ?h (inflightHashes st)\<rparr>"
  have ok: "\<not> store_fault env (store_ops ?st1)" using assms(3) by simp
  obtain st2 where m: "markPaymentInflight env ?h ?st1 = (Inr (), st2)"
    using mutatePayment_ok [OF ok] by (simp add: markPaymentInflight_def)
  show ?thesis
    using assms(1,2) m
    by (simp add: processEscrowPayment_def Let_def bind_m_def modify_m_def finally_m_state)
qed

lemma inflight_stuck_when_marking_fails:
  assumes "locked_paymentHashHex locked \<notin> processedHashes st"
    and "locked_paymentHashHex locked \<notin> inflightHashes st"
    and "store_fault env (store_ops st)"
  shows "fst (processEscrowPayment env locked bolt11 st) = Inl store_error
     \<and> locked_paymentHashHex locked
           \<in> inflightHashes (snd (processEscrowPayment env locked bolt11 st))"
proof -
  let ?h = "locked_paymentHashHex locked"
  let ?st1 = "st\<lparr>inflightHashes := insert ?h (inflightHashes st)\<rparr>"
  have bad: "store_fault env (store_ops ?st1)" using assms(3) by simp
  have m: "markPaymentInflight env ?h ?st1 = (Inl store_error, ?st1\<lparr>store_ops := Suc (store_ops ?st1)\<rparr>)"
    using mutatePayment_fault [OF bad] by (simp add: markPaymentInflight_def)
  show ?thesis
    using assms(1,2) m
    by (simp add: processEscrowPayment_def Let_def bind_m_def modify_m_def)
qed

lemma scenario_hash_lower: "toLowerCase scenario_payment_hash = scenario_payment_hash"
  by (simp add: scenario_payment_hash_def toLowerCase_def toLowerCase_char_def)

lemma scenario_hash_strip: "strip_0x scenario_payment_hash = scenario_payment_hash"
  by (simp add: scenario_payment_hash_def strip_0x_def)

lemma lower_msat: "toLowerCase ''msat'' = ''msat''"
  by (simp add: toLowerCase_def toLowerCase_char_def)

lemma scenario_hash_shape:
  "length scenario_payment_hash = 64" "list_all isLowerHex scenario_payment_hash"
  "scenario_payment_hash \<noteq> []"
  by (simp_all add: scenario_payment_hash_def isLowerHex_def)

lemmas orch_simps =
  processPaymentRequest_def processEscrowPayment_def payment_body_def loadEscrowFromStorage_def
  recordPaymentRequest_def recordPaymentError_def recordLightningFailure_def
  recordInvoiceDetails_def recordLightningSuccess_def markPaymentInflight_def
  markPaymentAlreadyClaimed_def mutatePayment_def findInvoice_def fetchPayPreimage_def
  payInvoice_def requestClaim_def log_and_rethrow_def post_pay_invariants_def
  invoiceAmount_of_def decodeBolt11Strict_def
  bind_m_def return_m_def throw_m_def lift_m_def catch_m_def finally_m_def modify_m_def
  external_m_def phaseIsLocked_def u256ToBigInt_def ensureEntry_def pushHistory_def
  truthy_def js_or_def serializeError_def new_coded_Error_def new_Error_def
  scenario_orch_env_def scenario_position_def fresh_orch_state_def
  scenario_hash_lower scenario_hash_strip Let_def

lemma stuck_state_sets:
  "inflightHashes stuck_state = {scenario_payment_hash}" "processedHashes stuck_state = {}"
  "external_calls stuck_state = [Call_get_escrow scenario_payment_hash]"
  unfolding stuck_state_def by (simp_all add: orch_simps)

lemma claimed_state_sets:
  "inflightHashes claimed_state = {}" "processedHashes claimed_state = {scenario_payment_hash}"
  "external_calls claimed_state = [Call_get_escrow scenario_payment_hash,
      Call_listinvoices scenario_payment_hash, Call_pay (Some ''lnbc1''),
      Call_claim scenario_payment_hash ''c0ffee'']"
  unfolding claimed_state_def
  by (simp_all add: orch_simps trim_def isWhiteSpace_def scenario_hash_shape
        match_digits_suffix_def isDigit_def BigInt_of_digits_def digit_value_def MSATS_PER_SAT_def
        lower_msat)

lemmas frame_simps =
  processPaymentRequest_def processEscrowPayment_def loadEscrowFromStorage_def
  recordPaymentRequest_def recordPaymentError_def markPaymentAlreadyClaimed_def
  mutatePayment_def bind_m_def return_m_def throw_m_def catch_m_def external_m_def Let_def

text \<open>
  What the code does for a hash that is in \<open>processedHashes\<close>:
  \<open>processEscrowPayment\<close> makes no call and leaves both sets as they are;
  \<open>processPaymentRequest\<close> makes one call, the read of the position on the chain,
  which comes before the test of the set.
\<close>

lemma processed_hash_after_chain_read:
  assumes "h \<in> processedHashes st"
  shows "(locked_paymentHashHex locked = h \<longrightarrow>
            external_calls (snd (processEscrowPayment env locked bolt11 st)) = external_calls st
            \<and> inflightHashes (snd (processEscrowPayment env locked bolt11 st)) = inflightHashes st
            \<and> processedHashes (snd (processEscrowPayment env locked bolt11 st)) = processedHashes st
            \<and> (\<not> store_fault env (store_ops st) \<longrightarrow>
                 fst (processEscrowPayment env locked bolt11 st) = Inr already_claimed_outcome))
     \<and> external_calls (snd (processPaymentRequest env h bolt11 st)) = external_calls st @ [Call_get_escrow h]
     \<and> inflightHashes (snd (processPaymentRequest env h bolt11 st)) = inflightHashes st
     \<and> processedHashes (snd (processPaymentRequest env h bolt11 st)) = processedHashes st
     \<and> (\<forall>pos. chain_get_escrow env h = Inr pos \<and> phase pos \<noteq> Locked \<longrightarrow>
           fst (processPaymentRequest env h bolt11 st)
             = Inl (new_Error ''Escrow position not found or not in Locked phase''))
     \<and> (\<forall>pos. chain_get_escrow env h = Inr pos \<and> phase pos = Locked
             \<and> \<not> store_fault env (store_ops st) \<and> \<not> store_fault env (Suc (store_ops st)) \<longrightarrow>
           fst (processPaymentRequest env h bolt11 st) = Inr already_claimed_outcome)"
proof (intro conjI impI allI)
  assume l: "locked_paymentHashHex locked = h"
  show "external_calls (snd (processEscrowPayment env locked bolt11 st)) = external_calls st"
    "inflightHashes (snd (processEscrowPayment env locked bolt11 st)) = inflightHashes st"
    "processedHashes (snd (processEscrowPayment env locked bolt11 st)) = processedHashes st"
    using assms l by (simp_all add: frame_simps)
  show "fst (processEscrowPayment env locked bolt11 st) = Inr already_claimed_outcome"
    if "\<not> store_fault env (store_ops st)"
    using assms l that by (simp add: frame_simps)
next
  show "external_calls (snd (processPaymentRequest env h bolt11 st)) = external_calls st @ [Call_get_escrow h]"
    using assms by (simp add: frame_simps split: sum.splits)
  show "inflightHashes (snd (processPaymentRequest env h bolt11 st)) = inflightHashes st"
    using assms by (simp add: frame_simps split: sum.splits)
  show "processedHashes (snd (processPaymentRequest env h bolt11 st)) = processedHashes st"
    using assms by (simp add: frame_simps split: sum.splits)
next
  fix pos
  show "fst (processPaymentRequest env h bolt11 st)
          = Inl (new_Error ''Escrow position not found or not in Locked phase'')"
    if "chain_get_escrow env h = Inr pos \<and> phase pos \<noteq> Locked"
    using that by (simp add: frame_simps phaseIsLocked_def)
  show "fst (processPaymentRequest env h bolt11 st) = Inr already_claimed_outcome"
    if "chain_get_escrow env h = Inr pos \<and> phase pos = Locked
          \<and> \<not> store_fault env (store_ops st) \<and> \<not> store_fault env (Suc (store_ops st))"
    using that assms by (simp add: frame_simps phaseIsLocked_def)
qed

lemma scenario_first_request:
  "fst (processPaymentRequest (scenario_orch_env Locked ''5000000'' None) scenario_payment_hash
          (Some ''lnbc1'') fresh_orch_state)
     = Inr \<lparr>outcome_status = ''claimed'', outcome_lightning_status = ''paid'',
            outcome_payment_preimage = Some ''c0ffee'', outcome_starknet_status = ''claimed'',
            outcome_tx_hash = Some ''0xfeed''\<rparr>"
  by (simp add: orch_simps trim_def isWhiteSpace_def scenario_hash_shape
        match_digits_suffix_def isDigit_def BigInt_of_digits_def digit_value_def MSATS_PER_SAT_def
        lower_msat)

text \<open>
  Claim C5 at the second request for a hash whose first request has run to the end:
  the invoice was paid, the claim was confirmed and the hash was added to
  \<open>processedHashes\<close>. The chain now reports the position as Claimed. The second
  request does not return \<open>already_claimed\<close>: it reads the position on the chain
  before it looks at \<open>processedHashes\<close>, and the read throws because the phase is not
  Locked. No Lightning payment and no claim is made, but the read of the chain is.
\<close>

theorem second_request_after_claim_fails_at_chain_read:
  "fst (processPaymentRequest (scenario_orch_env Locked ''5000000'' None) scenario_payment_hash
          (Some ''lnbc1'') fresh_orch_state)
     = Inr \<lparr>outcome_status = ''claimed'', outcome_lightning_status = ''paid'',
            outcome_payment_preimage = Some ''c0ffee'', outcome_starknet_status = ''claimed'',
            outcome_tx_hash = Some ''0xfeed''\<rparr>
   \<and> scenario_payment_hash \<in> processedHashes claimed_state
   \<and> fst (processPaymentRequest (scenario_orch_env Claimed ''5000000'' None) scenario_payment_hash
          (Some ''lnbc1'') claimed_state)
       = Inl (new_Error ''Escrow position not found or not in Locked phase'')
   \<and> fst (processPaymentRequest (scenario_orch_env Claimed ''5000000'' None) scenario_payment_hash
          (Some ''lnbc1'') claimed_state) \<noteq> Inr already_claimed_outcome
   \<and> external_calls (snd (processPaymentRequest (scenario_orch_env Claimed ''5000000'' None)
                   scenario_payment_hash (Some ''lnbc1'') claimed_state))
       = external_calls claimed_state @ [Call_get_escrow scenario_payment_hash]"
proof -
  have second: "fst (processPaymentRequest (scenario_orch_env Claimed ''5000000'' None)
          scenario_payment_hash (Some ''lnbc1'') claimed_state)
       = Inl (new_Error ''Escrow position not found or not in Locked phase'')"
    by (simp add: frame_simps phaseIsLocked_def scenario_orch_env_def scenario_position_def)
  have reads: "external_calls (snd (processPaymentRequest (scenario_orch_env Claimed ''5000000'' None)
                   scenario_payment_hash (Some ''lnbc1'') claimed_state))
       = external_calls claimed_state @ [Call_get_escrow scenario_payment_hash]"
    by (simp add: frame_simps phaseIsLocked_def scenario_orch_env_def scenario_position_def)
  show ?thesis
    using scenario_first_request second reads by (simp add: claimed_state_sets)
qed

text \<open>
  Claim C10 at a request whose store update in \<open>markPaymentInflight\<close> fails (the second
  update of the request; the store file cannot be written at that moment). The hash
  has been added to \<open>inflightHashes\<close>, the \<open>try\<close> statement has not been entered, and
  the exception leaves the hash in the set. The next request for the hash, with the
  store working again, is rejected with \<open>payment_inflight\<close>, and the hash stays in
  the set.
\<close>

theorem marking_failure_leaves_hash_inflight:
  "fst (processPaymentRequest (scenario_orch_env Locked ''5000000'' (Some 1))
          scenario_payment_hash (Some ''lnbc1'') fresh_orch_state) = Inl store_error
   \<and> scenario_payment_hash \<in> inflightHashes stuck_state
   \<and> fst (processPaymentRequest (scenario_orch_env Locked ''5000000'' None)
            scenario_payment_hash (Some ''lnbc1'') stuck_state) = Inl payment_inflight_error
   \<and> scenario_payment_hash \<in> inflightHashes
        (snd (processPaymentRequest (scenario_orch_env Locked ''5000000'' None)
               scenario_payment_hash (Some ''lnbc1'') stuck_state))"
proof -
  have a: "fst (processPaymentRequest (scenario_orch_env Locked ''5000000'' (Some 1))
          scenario_payment_hash (Some ''lnbc1'') fresh_orch_state) = Inl store_error"
    by (simp add: orch_simps)
  have b: "fst (processPaymentRequest (scenario_orch_env Locked ''5000000'' None)
            scenario_payment_hash (Some ''lnbc1'') stuck_state) = Inl payment_inflight_error"
    by (simp add: stuck_state_sets frame_simps phaseIsLocked_def scenario_orch_env_def
          scenario_position_def payment_inflight_error_def new_coded_Error_def new_Error_def)
  have c: "inflightHashes
        (snd (processPaymentRequest (scenario_orch_env Locked ''5000000'' None)
               scenario_payment_hash (Some ''lnbc1'') stuck_state)) = {scenario_payment_hash}"
    by (simp add: stuck_state_sets frame_simps phaseIsLocked_def scenario_orch_env_def
          scenario_position_def payment_inflight_error_def new_coded_Error_def new_Error_def)
  show ?thesis using a b c by (simp add: stuck_state_sets)
qed

lemmas body_simps =
  processPaymentRequest_def processEscrowPayment_def payment_body_def loadEscrowFromStorage_def
  recordPaymentRequest_def recordPaymentError_def recordLightningFailure_def
  markPaymentInflight_def mutatePayment_def findInvoice_def log_and_rethrow_def
  bind_m_def return_m_def throw_m_def lift_m_def catch_m_def finally_m_def modify_m_def
  external_m_def phaseIsLocked_def ensureEntry_def pushHistory_def
  serializeError_def new_coded_Error_def new_Error_def Let_def

text \<open>
  Claim C7. A request passes the gate (the hash is in neither set), the chain reports
  the position as Locked, the store works, an invoice is found on the node or a
  BOLT11 string comes with the request, and the invoice amount that the code derives
  from it is not the locked amount. Then the request throws the error with code
  \<open>amount_mismatch\<close> and status 409; the only calls made are the read of the position
  and \<open>listinvoices\<close>, so neither \<open>pay\<close> nor the claim is invoked; and the payment
  entry has status \<open>lightning_failed\<close>, a failed Lightning sub-state whose error has
  the code \<open>amount_mismatch\<close>, and \<open>lightning_failed\<close> with that code as its last
  history event. The hash is left in neither set.
\<close>

theorem amount_mismatch_aborts_before_pay:
  assumes "h \<notin> processedHashes st" and "h \<notin> inflightHashes st"
    and "\<forall>n. \<not> store_fault env n"
    and "chain_get_escrow env h = Inr pos" and "phase pos = Locked"
    and "cln_listinvoices env h = Inr invoices"
    and "invoices \<noteq> [] \<or> truthy bolt11"
    and "invoiceAmount_of env h (case invoices of [] \<Rightarrow> None | i # _ \<Rightarrow> Some i) bolt11 = Inr a"
    and "a \<noteq> u256ToBigInt (low (amount pos)) (high (amount pos))"
    and "result = processPaymentRequest env h bolt11 st"
  shows "(\<exists>err. fst result = Inl err \<and> err_code err = Some ''amount_mismatch''
            \<and> err_status err = Some 409)
     \<and> external_calls (snd result) = external_calls st @ [Call_get_escrow h, Call_listinvoices h]
     \<and> (\<exists>entry. payments (snd result) (toLowerCase (strip_0x h)) = Some entry
           \<and> payment_status entry = ''lightning_failed''
           \<and> lightning_status entry = Some ''failed''
           \<and> map_option se_code (lightning_error entry) = Some (Some ''amount_mismatch'')
           \<and> last (history entry)
                = \<lparr>history_event = ''lightning_failed'',
                   history_code = Some ''amount_mismatch''\<rparr>)
     \<and> inflightHashes (snd result) = inflightHashes st
     \<and> processedHashes (snd result) = processedHashes st"
proof (cases invoices)
  case Nil
  with assms(7) have b: "truthy bolt11" by simp
  show ?thesis
    using assms(1-6,8-9) b Nil
    by (simp add: assms(10) body_simps)
next
  case (Cons i rest)
  show ?thesis
    using assms(1-6,8-9) Cons
    by (simp add: assms(10) body_simps)
qed

lemma scenario_mismatch_amount:
  "invoiceAmount_of (scenario_orch_env Locked ''6000000'' None) scenario_payment_hash None
     (Some ''lnbc1'') = Inr 6000"
  by (simp add: invoiceAmount_of_def decodeBolt11Strict_def scenario_orch_env_def trim_def
        isWhiteSpace_def truthy_def scenario_hash_lower scenario_hash_shape
        match_digits_suffix_def isDigit_def BigInt_of_digits_def digit_value_def
        MSATS_PER_SAT_def)

theorem amount_mismatch_aborts_before_pay_witness:
  "(\<exists>err. fst (processPaymentRequest (scenario_orch_env Locked ''6000000'' None)
               scenario_payment_hash (Some ''lnbc1'') fresh_orch_state) = Inl err
          \<and> err_code err = Some ''amount_mismatch'')
   \<and> external_calls (snd (processPaymentRequest (scenario_orch_env Locked ''6000000'' None)
                   scenario_payment_hash (Some ''lnbc1'') fresh_orch_state))
       = [Call_get_escrow scenario_payment_hash, Call_listinvoices scenario_payment_hash]"
proof -
  let ?env = "scenario_orch_env Locked ''6000000'' None"
  have g: "scenario_payment_hash \<notin> processedHashes fresh_orch_state"
    "scenario_payment_hash \<notin> inflightHashes fresh_orch_state"
    by (simp_all add: fresh_orch_state_def)
  have s: "\<forall>n. \<not> store_fault ?env n" by (simp add: scenario_orch_env_def)
  have c: "chain_get_escrow ?env scenario_payment_hash = Inr (scenario_position Locked)"
    "phase (scenario_position Locked) = Locked"
    by (simp_all add: scenario_orch_env_def scenario_position_def)
  have i: "cln_listinvoices ?env scenario_payment_hash = Inr []"
    by (simp add: scenario_orch_env_def)
  have b: "([] :: cln_invoice list) \<noteq> [] \<or> truthy (Some ''lnbc1'')"
    by (simp add: truthy_def)
  have a: "invoiceAmount_of ?env scenario_payment_hash
             (case ([] :: cln_invoice list) of [] \<Rightarrow> None | i # _ \<Rightarrow> Some i) (Some ''lnbc1'')
           = Inr 6000"
    using scenario_mismatch_amount by simp
  have n: "(6000::int) \<noteq> u256ToBigInt (low (amount (scenario_position Locked)))
                            (high (amount (scenario_position Locked)))"
    by (simp add: u256ToBigInt_def scenario_position_def)
  note t = amount_mismatch_aborts_before_pay [OF g s c i b a n refl]
  have z: "external_calls fresh_orch_state = []" by (simp add: fresh_orch_state_def)
  from t have e: "\<exists>err. fst (processPaymentRequest ?env scenario_payment_hash (Some ''lnbc1'')
      fresh_orch_state) = Inl err \<and> err_code err = Some ''amount_mismatch''"
    by blast
  from t have "external_calls (snd (processPaymentRequest ?env scenario_payment_hash (Some ''lnbc1'')
      fresh_orch_state))
      = external_calls fresh_orch_state @ [Call_get_escrow scenario_payment_hash,
                                  Call_listinvoices scenario_payment_hash]"
    by blast
  with e z show ?thesis by simp
qed

end
